theory Spec2Isabelle
  imports Complex_Main "HOL-Library.Sublist"
begin

section \<open>Values shared by the services\<close>

text \<open>
  A value caught in a \<^verbatim>\<open>catch (error: any)\<close> block. Only two properties are ever
  read from it, \<^verbatim>\<open>error.code\<close> and \<^verbatim>\<open>error.message\<close>; either may be absent
  (\<^verbatim>\<open>undefined\<close>), which is \<open>None\<close> here. \<^verbatim>\<open>new Error(m)\<close> has the message
  \<open>m\<close> and no code.
\<close>

record js_error =
  err_code :: "string option"
  err_message :: "string option"

definition Error :: "string \<Rightarrow> js_error" where
  "Error m = \<lparr>err_code = None, err_message = Some m\<rparr>"

text \<open>
  JavaScript's \<^verbatim>\<open>a || b\<close> on an optional string: \<^verbatim>\<open>b\<close> when \<^verbatim>\<open>a\<close> is falsy, that
  is \<^verbatim>\<open>undefined\<close> or the empty string.
\<close>

definition truthy :: "string option \<Rightarrow> bool" where
  "truthy v = (case v of None \<Rightarrow> False | Some s \<Rightarrow> s \<noteq> [])"

definition or_else :: "string option \<Rightarrow> string \<Rightarrow> string" where
  "or_else v d = (case v of None \<Rightarrow> d | Some s \<Rightarrow> if s = [] then d else s)"

section \<open>services/firebase.ts\<close>

definition handleFirebaseError :: "js_error \<Rightarrow> string" where
  "handleFirebaseError error =
     (if err_code error = Some ''unavailable'' \<or> err_code error = Some ''deadline-exceeded''
      then ''Service temporarily unavailable. Operating in offline mode.''
      else or_else (err_message error) ''An error occurred. Please try again.'')"

text \<open>Decimal rendering of a non-negative integer, as a template literal does it.\<close>

function string_of_nat :: "nat \<Rightarrow> string" where
  "string_of_nat n =
     (if n < 10 then [char_of (48 + n)]
      else string_of_nat (n div 10) @ [char_of (48 + n mod 10)])"
  by pat_completeness auto
termination
  by (relation "measure id") auto

declare string_of_nat.simps [simp del]

section \<open>services/auth.ts\<close>

datatype role = Citizen | Admin

text \<open>
  \<^verbatim>\<open>createdAt\<close> and \<^verbatim>\<open>updatedAt\<close> hold either a client \<^verbatim>\<open>new Date()\<close> (the clock
  reading in milliseconds) or the \<^verbatim>\<open>serverTimestamp()\<close> sentinel.
\<close>

datatype timestamp = Date nat | ServerTimestamp

record UserProfile =
  up_uid :: string
  up_name :: string
  up_email :: string
  up_phone :: string
  up_role :: role
  up_profileImageUrl :: "string option"
  up_createdAt :: timestamp
  up_updatedAt :: timestamp

text \<open>\<^verbatim>\<open>Partial<UserProfile>\<close>: every property may be missing.\<close>

record ProfileUpdates =
  pu_uid :: "string option"
  pu_name :: "string option"
  pu_email :: "string option"
  pu_phone :: "string option"
  pu_role :: "role option"
  pu_profileImageUrl :: "string option"
  pu_createdAt :: "timestamp option"
  pu_updatedAt :: "timestamp option"

text \<open>The object spread \<^verbatim>\<open>{ ...profile, ...updates }\<close>.\<close>

definition spread :: "UserProfile \<Rightarrow> ProfileUpdates \<Rightarrow> UserProfile" where
  "spread p u =
     \<lparr>up_uid = (case pu_uid u of None \<Rightarrow> up_uid p | Some v \<Rightarrow> v),
      up_name = (case pu_name u of None \<Rightarrow> up_name p | Some v \<Rightarrow> v),
      up_email = (case pu_email u of None \<Rightarrow> up_email p | Some v \<Rightarrow> v),
      up_phone = (case pu_phone u of None \<Rightarrow> up_phone p | Some v \<Rightarrow> v),
      up_role = (case pu_role u of None \<Rightarrow> up_role p | Some v \<Rightarrow> v),
      up_profileImageUrl =
        (case pu_profileImageUrl u of None \<Rightarrow> up_profileImageUrl p | Some v \<Rightarrow> Some v),
      up_createdAt = (case pu_createdAt u of None \<Rightarrow> up_createdAt p | Some v \<Rightarrow> v),
      up_updatedAt = (case pu_updatedAt u of None \<Rightarrow> up_updatedAt p | Some v \<Rightarrow> v)\<rparr>"

text \<open>
  The browser's \<^verbatim>\<open>localStorage\<close>. The service stores \<^verbatim>\<open>JSON.stringify(profile)\<close>
  and reads it back with \<^verbatim>\<open>JSON.parse\<close>; the stored text is represented by the
  profile it encodes.
\<close>

type_synonym local_storage = "string \<rightharpoonup> UserProfile"

definition user_key :: string where
  "user_key = ''vikasit_jharkhand_user''"

text \<open>
  The backend SDK is an external collaborator. Its answers are inputs of the model: each
  SDK function the service awaits is a field giving, for the arguments of the call, the
  rejection (\<open>Inl\<close>, or \<open>Some\<close> for a call without a value) or the value it
  resolves with. \<open>be_now\<close> is the clock read by \<^verbatim>\<open>Date.now()\<close> and \<^verbatim>\<open>new Date()\<close>.
\<close>

record backend =
  isFirebaseAvailable :: bool
  be_now :: nat
  createUserWithEmailAndPassword :: "string \<Rightarrow> string \<Rightarrow> js_error + string"
  updateProfile :: "string \<Rightarrow> string \<Rightarrow> js_error option"
  setDoc :: "string \<Rightarrow> UserProfile \<Rightarrow> js_error option"
  signInWithEmailAndPassword :: "string \<Rightarrow> string \<Rightarrow> js_error + string"
  getDoc :: "string \<Rightarrow> js_error + UserProfile option"
  updateDoc :: "string \<Rightarrow> ProfileUpdates \<Rightarrow> js_error option"
  deleteDoc :: "string \<Rightarrow> js_error option"
  deleteUser :: "string \<Rightarrow> js_error option"

text \<open>The SDK calls a service function makes, in the order it makes them.\<close>

datatype backend_call =
    CreateUserWithEmailAndPassword string string
  | UpdateProfile string string
  | SetDoc string UserProfile
  | SignInWithEmailAndPassword string string
  | GetDoc string
  | UpdateDoc string ProfileUpdates
  | DeleteDoc string
  | DeleteUser string

text \<open>
  What a service function does: the promise it returns either rejects with
  \<^verbatim>\<open>new Error(m)\<close> (\<open>Inl m\<close>) or resolves (\<open>Inr\<close>); \<open>calls\<close> are the SDK calls
  made on the way and \<open>storage\<close> is \<^verbatim>\<open>localStorage\<close> afterwards.
\<close>

record 'a outcome =
  returned :: "string + 'a"
  calls :: "backend_call list"
  storage :: local_storage

definition registerUser ::
  "backend \<Rightarrow> local_storage \<Rightarrow> string \<Rightarrow> string \<Rightarrow> string \<Rightarrow> string \<Rightarrow> UserProfile outcome" where
  "registerUser be ls email password name phone =
     (if \<not> isFirebaseAvailable be then
        let mockProfile =
          \<lparr>up_uid = ''offline_'' @ string_of_nat (be_now be),
           up_name = name, up_email = email, up_phone = phone, up_role = Citizen,
           up_profileImageUrl = None,
           up_createdAt = Date (be_now be), up_updatedAt = Date (be_now be)\<rparr>
        in \<lparr>returned = Inr mockProfile, calls = [],
            storage = ls(user_key \<mapsto> mockProfile)\<rparr>
      else
        case createUserWithEmailAndPassword be email password of
          Inl error \<Rightarrow>
            \<lparr>returned = Inl (handleFirebaseError error),
             calls = [CreateUserWithEmailAndPassword email password], storage = ls\<rparr>
        | Inr user_uid \<Rightarrow>
            (case updateProfile be user_uid name of
               Some error \<Rightarrow>
                 \<lparr>returned = Inl (handleFirebaseError error),
                  calls = [CreateUserWithEmailAndPassword email password,
                           UpdateProfile user_uid name],
                  storage = ls\<rparr>
             | None \<Rightarrow>
                 let userProfile =
                   \<lparr>up_uid = user_uid, up_name = name, up_email = email, up_phone = phone,
                    up_role = Citizen, up_profileImageUrl = None,
                    up_createdAt = ServerTimestamp, up_updatedAt = ServerTimestamp\<rparr>
                 in (case setDoc be user_uid userProfile of
                       Some error \<Rightarrow>
                         \<lparr>returned = Inl (handleFirebaseError error),
                          calls = [CreateUserWithEmailAndPassword email password,
                                   UpdateProfile user_uid name, SetDoc user_uid userProfile],
                          storage = ls\<rparr>
                     | None \<Rightarrow>
                         \<lparr>returned = Inr userProfile,
                          calls = [CreateUserWithEmailAndPassword email password,
                                   UpdateProfile user_uid name, SetDoc user_uid userProfile],
                          storage = ls\<rparr>)))"

definition adminProfile :: "nat \<Rightarrow> UserProfile" where
  "adminProfile t =
     \<lparr>up_uid = ''admin'', up_name = ''Administrator'',
      up_email = ''admin@vikasitjharkhand.gov.in'', up_phone = ''+91-9999999999'',
      up_role = Admin, up_profileImageUrl = None,
      up_createdAt = Date t, up_updatedAt = Date t\<rparr>"

text \<open>The one entry of \<^verbatim>\<open>demoUsers\<close>: email, password, profile.\<close>

definition demoUsers :: "nat \<Rightarrow> (string \<times> string \<times> UserProfile) list" where
  "demoUsers t =
     [(''demo@vikasitjharkhand.gov.in'', ''demo123'',
       \<lparr>up_uid = ''demo_user'', up_name = ''Demo Citizen'',
        up_email = ''demo@vikasitjharkhand.gov.in'', up_phone = ''+91-9876543210'',
        up_role = Citizen, up_profileImageUrl = None,
        up_createdAt = Date t, up_updatedAt = Date t\<rparr>)]"

definition signInUser ::
  "backend \<Rightarrow> local_storage \<Rightarrow> string \<Rightarrow> string \<Rightarrow> UserProfile outcome" where
  "signInUser be ls email password =
     (if email = ''admin'' \<and> password = ''admin'' then
        \<lparr>returned = Inr (adminProfile (be_now be)), calls = [],
         storage = ls(user_key \<mapsto> adminProfile (be_now be))\<rparr>
      else if \<not> isFirebaseAvailable be then
        (case find (\<lambda>(e, p, _). e = email \<and> p = password) (demoUsers (be_now be)) of
           Some (_, _, profile) \<Rightarrow>
             \<lparr>returned = Inr profile, calls = [], storage = ls(user_key \<mapsto> profile)\<rparr>
         | None \<Rightarrow>
             \<lparr>returned = Inl (''Invalid credentials. Try demo@vikasitjharkhand.gov.in / '' @
                              ''demo123 or register a new account.''),
              calls = [], storage = ls\<rparr>)
      else
        case signInWithEmailAndPassword be email password of
          Inl error \<Rightarrow>
            \<lparr>returned = Inl (handleFirebaseError error),
             calls = [SignInWithEmailAndPassword email password], storage = ls\<rparr>
        | Inr user_uid \<Rightarrow>
            (case getDoc be user_uid of
               Inl error \<Rightarrow>
                 \<lparr>returned = Inl (handleFirebaseError error),
                  calls = [SignInWithEmailAndPassword email password, GetDoc user_uid],
                  storage = ls\<rparr>
             | Inr None \<Rightarrow>
                 \<lparr>returned = Inl (handleFirebaseError (Error ''User profile not found'')),
                  calls = [SignInWithEmailAndPassword email password, GetDoc user_uid],
                  storage = ls\<rparr>
             | Inr (Some profile) \<Rightarrow>
                 \<lparr>returned = Inr profile,
                  calls = [SignInWithEmailAndPassword email password, GetDoc user_uid],
                  storage = ls(user_key \<mapsto> profile)\<rparr>))"

text \<open>
  The local-storage half of \<open>updateUserProfile\<close>: when a profile is stored, it is
  replaced by \<^verbatim>\<open>{ ...profile, ...updates, updatedAt: new Date() }\<close>.
\<close>

definition updateStored :: "nat \<Rightarrow> local_storage \<Rightarrow> ProfileUpdates \<Rightarrow> local_storage" where
  "updateStored t ls updates =
     (case ls user_key of
        None \<Rightarrow> ls
      | Some profile \<Rightarrow> ls(user_key \<mapsto> (spread profile updates)\<lparr>up_updatedAt := Date t\<rparr>))"

definition updateUserProfile ::
  "backend \<Rightarrow> local_storage \<Rightarrow> string \<Rightarrow> ProfileUpdates \<Rightarrow> unit outcome" where
  "updateUserProfile be ls uid updates =
     (if uid = ''admin'' then
        \<lparr>returned = Inl ''Cannot update admin profile'', calls = [], storage = ls\<rparr>
      else if \<not> isFirebaseAvailable be then
        \<lparr>returned = Inr (), calls = [], storage = updateStored (be_now be) ls updates\<rparr>
      else
        let sent = updates\<lparr>pu_updatedAt := Some ServerTimestamp\<rparr> in
        case updateDoc be uid sent of
          Some error \<Rightarrow>
            \<lparr>returned = Inl (handleFirebaseError error), calls = [UpdateDoc uid sent],
             storage = ls\<rparr>
        | None \<Rightarrow>
            \<lparr>returned = Inr (), calls = [UpdateDoc uid sent],
             storage = updateStored (be_now be) ls updates\<rparr>)"

text \<open>The SDK's \<^verbatim>\<open>User\<close> object; the service reads its \<^verbatim>\<open>uid\<close> only.\<close>

record User =
  user_uid :: string

definition deleteUserAccount :: "backend \<Rightarrow> local_storage \<Rightarrow> User \<Rightarrow> unit outcome" where
  "deleteUserAccount be ls user =
     (if user_uid user = ''admin'' then
        \<lparr>returned = Inl ''Cannot delete admin account'', calls = [], storage = ls\<rparr>
      else if \<not> isFirebaseAvailable be then
        \<lparr>returned = Inr (), calls = [], storage = ls(user_key := None)\<rparr>
      else
        case deleteDoc be (user_uid user) of
          Some error \<Rightarrow>
            \<lparr>returned = Inl (handleFirebaseError error), calls = [DeleteDoc (user_uid user)],
             storage = ls\<rparr>
        | None \<Rightarrow>
            (case deleteUser be (user_uid user) of
               Some error \<Rightarrow>
                 \<lparr>returned = Inl (handleFirebaseError error),
                  calls = [DeleteDoc (user_uid user), DeleteUser (user_uid user)],
                  storage = ls\<rparr>
             | None \<Rightarrow>
                 \<lparr>returned = Inr (),
                  calls = [DeleteDoc (user_uid user), DeleteUser (user_uid user)],
                  storage = ls(user_key := None)\<rparr>))"

section \<open>components/StatusBadge.tsx, components/IssueCard.tsx\<close>

text \<open>
  \<^verbatim>\<open>IssueStatus\<close> is a union of four string literals. The type is erased at run
  time, and statuses reach the handlers through unchecked casts
  (\<^verbatim>\<open>value as Issue["status"]\<close>, \<^verbatim>\<open>doc.data() as Issue\<close>), so a status is a string
  here and \<open>valid_status\<close> says that it is one of the four.
\<close>

type_synonym IssueStatus = string

definition IssueStatus_values :: "IssueStatus list" where
  "IssueStatus_values = [''reported'', ''acknowledged'', ''in-progress'', ''resolved'']"

definition valid_status :: "IssueStatus \<Rightarrow> bool" where
  "valid_status st = (st \<in> set IssueStatus_values)"

text \<open>Coordinates are JavaScript numbers; they are carried as reals.\<close>

record Location =
  loc_address :: string
  loc_lat :: real
  loc_lng :: real

record Issue =
  is_id :: string
  is_title :: string
  is_description :: string
  is_category :: string
  is_status :: IssueStatus
  is_location :: Location
  is_imageUrl :: "string option"
  is_reportedBy :: string
  is_reportedAt :: nat
  is_assignedTo :: "string option"

section \<open>services/issues.ts\<close>

text \<open>
  The object the form passes to \<open>addIssue\<close>. The last three properties are set only
  on some paths; \<^verbatim>\<open>imageUploadFailed\<close> is only ever set to \<^verbatim>\<open>true\<close>.
\<close>

record IssueData =
  d_title :: string
  d_description :: string
  d_category :: string
  d_location :: Location
  d_reportedBy :: string
  d_status :: IssueStatus
  d_imageUrl :: "string option"
  d_imageUploadFailed :: bool
  d_audioDescription :: "string option"

text \<open>The document \<open>addIssue\<close> writes: the data and three server timestamps.\<close>

record IssueDoc = IssueData +
  doc_reportedAt :: timestamp
  doc_createdAt :: timestamp
  doc_updatedAt :: timestamp

record File =
  file_name :: string
  file_size :: nat

text \<open>
  What the submit handler needs beyond the auth backend: the storage and database SDK
  calls, the user's answer to \<^verbatim>\<open>confirm\<close>, and, for the race of the upload against
  the timer, whether the upload promise settles before the timer fires.
\<close>

record form_backend = backend +
  uploadBytes :: "string \<Rightarrow> File \<Rightarrow> js_error option"
  getDownloadURL :: "string \<Rightarrow> js_error + string"
  uploadSettlesBeforeTimeout :: bool
  confirm :: "string \<Rightarrow> bool"
  addDoc :: "IssueDoc \<Rightarrow> js_error + string"

text \<open>
  What the handler does to the outside, in order: calls of the component's own
  \<open>uploadImage\<close>, timers started (with their delay in milliseconds), dialogs, the
  call of \<open>addIssue\<close>, the document write inside it, and the \<open>onCancel\<close> callback.
  Console logging is left out.
\<close>

datatype effect =
    UploadImage File
  | SetTimeout nat
  | Confirm string
  | Alert string
  | AddIssue IssueData
  | AddDoc IssueDoc
  | OnCancel

definition addIssue :: "('a form_backend_scheme) \<Rightarrow> IssueData \<Rightarrow> (js_error + string) \<times> effect list" where
  "addIssue be issueData =
     (if \<not> isFirebaseAvailable be then (Inl (Error ''Firebase not available''), [])
      else
        let issue = IssueData.extend issueData
              (IssueDoc.fields ServerTimestamp ServerTimestamp ServerTimestamp)
        in (addDoc be issue, [AddDoc issue]))"

section \<open>components/IssueReportForm.tsx\<close>

record FormState =
  title :: string
  description :: string
  category :: string
  location :: string
  latLng :: "(real \<times> real) option"
  imageUrl :: string
  selectedImage :: "File option"
  isRecording :: bool
  audioDescription :: string
  loading :: bool
  error :: string

definition uploadImage :: "('a form_backend_scheme) \<Rightarrow> File \<Rightarrow> js_error + string" where
  "uploadImage be file =
     (let imageRef = ''issue-images/'' @ string_of_nat (be_now be) @ ''_'' @ file_name file
      in case uploadBytes be imageRef file of
           Some e \<Rightarrow> Inl e
         | None \<Rightarrow> getDownloadURL be imageRef)"

text \<open>
  \<^verbatim>\<open>Promise.race([uploadImage(file), <timer rejecting after 15000 ms>])\<close>: the upload's
  own result when it settles first, the timer's rejection otherwise.
\<close>

definition uploadTimeoutMs :: nat where
  "uploadTimeoutMs = 15000"

definition raceUpload :: "('a form_backend_scheme) \<Rightarrow> File \<Rightarrow> js_error + string" where
  "raceUpload be file =
     (if uploadSettlesBeforeTimeout be then uploadImage be file
      else Inl (Error ''Image upload timeout''))"

definition msg_required :: string where
  "msg_required = ''Please fill in all required fields''"

definition msg_upload_warning :: string where
  "msg_upload_warning =
     [CHR 0xE2, CHR 0x9A, CHR 0xA0, CHR 0xEF, CHR 0xB8, CHR 0x8F] @
     '' Image upload failed, but your report will be submitted without the image. '' @
     ''You can edit the report later to add the image.''"

definition msg_confirm :: string where
  "msg_confirm =
     ''Image upload failed. Would you like to submit the report without the image? '' @
     ''You can edit it later to add the image.''"

definition msg_cancelled :: string where
  "msg_cancelled =
     ''Submission cancelled. Please try uploading the image again or submit without image.''"

definition msg_submitted_without_image :: string where
  "msg_submitted_without_image =
     [CHR 0xE2, CHR 0x9C, CHR 0x85] @
     '' Report submitted successfully (without image). '' @
     ''You can edit the report later to add the image.''"

text \<open>
  The first part of the \<^verbatim>\<open>try\<close> block: the upload of the selected image. It gives
  \<^verbatim>\<open>finalImageUrl\<close>, \<^verbatim>\<open>imageUploadFailed\<close>, the form state and the effects so far.
\<close>

definition uploadStep ::
  "('a form_backend_scheme) \<Rightarrow> FormState \<Rightarrow> string option \<times> bool \<times> FormState \<times> effect list" where
  "uploadStep be s =
     (case selectedImage s of
        None \<Rightarrow> (None, False, s, [])
      | Some file \<Rightarrow>
          if isFirebaseAvailable be then
            (case raceUpload be file of
               Inr url \<Rightarrow> (Some url, False, s, [UploadImage file, SetTimeout uploadTimeoutMs])
             | Inl imgErr \<Rightarrow>
                 (None, True, s\<lparr>error := msg_upload_warning\<rparr>,
                  [UploadImage file, SetTimeout uploadTimeoutMs]))
          else (Some (imageUrl s), False, s, []))"

definition issueDataOf :: "string \<Rightarrow> FormState \<Rightarrow> string option \<Rightarrow> IssueData" where
  "issueDataOf reporter s finalImageUrl =
     \<lparr>d_title = title s, d_description = description s, d_category = category s,
      d_location =
        \<lparr>loc_address = location s,
         loc_lat = (case latLng s of None \<Rightarrow> 0 | Some (lat, lng) \<Rightarrow> lat),
         loc_lng = (case latLng s of None \<Rightarrow> 0 | Some (lat, lng) \<Rightarrow> lng)\<rparr>,
      d_reportedBy = reporter,
      d_status = ''reported'',
      d_imageUrl = (if truthy finalImageUrl then finalImageUrl else None),
      d_imageUploadFailed =
        (\<not> truthy finalImageUrl \<and> selectedImage s \<noteq> None),
      d_audioDescription =
        (if audioDescription s \<noteq> [] then Some (audioDescription s) else None)\<rparr>"

text \<open>
  The last part of the \<^verbatim>\<open>try\<close> block, from \<^verbatim>\<open>// Prepare issue data\<close> on, with the
  \<^verbatim>\<open>catch\<close> and \<^verbatim>\<open>finally\<close> blocks: \<open>s\<close> is the state the handler was created
  with (the values it reads), \<open>s1\<close> the state as updated so far.
\<close>

definition submitStep ::
  "('a form_backend_scheme) \<Rightarrow> string \<Rightarrow> FormState \<Rightarrow> FormState \<Rightarrow> string option \<Rightarrow> bool \<Rightarrow>
     FormState \<times> effect list" where
  "submitStep be reporter s s1 finalImageUrl imageUploadFailed =
     (let issueData = issueDataOf reporter s finalImageUrl
      in case addIssue be issueData of
           (Inr new_id, effA) \<Rightarrow>
             (s1\<lparr>loading := False\<rparr>,
              [AddIssue issueData] @ effA @
              (if imageUploadFailed then [Alert msg_submitted_without_image] else []) @
              [OnCancel])
         | (Inl err, effA) \<Rightarrow>
             (s1\<lparr>error := or_else (err_message err)
                           ''Failed to submit issue. Please try again.'',
                 loading := False\<rparr>,
              [AddIssue issueData] @ effA))"

text \<open>
  \<open>handleSubmit\<close>, with \<open>reporter\<close> the \<^verbatim>\<open>currentUser.email\<close> of the props. It
  returns the form state after the handler (with its \<^verbatim>\<open>finally\<close> block) has run and
  the effects in order.
\<close>

definition handleSubmit ::
  "('a form_backend_scheme) \<Rightarrow> string \<Rightarrow> FormState \<Rightarrow> FormState \<times> effect list" where
  "handleSubmit be reporter s =
     (if title s = [] \<or> description s = [] \<or> category s = [] \<or> location s = [] then
        (s\<lparr>error := msg_required\<rparr>, [])
      else
        case uploadStep be (s\<lparr>loading := True, error := []\<rparr>) of
          (finalImageUrl, imageUploadFailed, s1, eff1) \<Rightarrow>
            if imageUploadFailed \<and> selectedImage s \<noteq> None then
              (if confirm be msg_confirm then
                 (case submitStep be reporter s s1 finalImageUrl imageUploadFailed of
                    (s2, eff2) \<Rightarrow> (s2, eff1 @ [Confirm msg_confirm] @ eff2))
               else
                 (s1\<lparr>loading := False, error := msg_cancelled\<rparr>, eff1 @ [Confirm msg_confirm]))
            else
              (case submitStep be reporter s s1 finalImageUrl imageUploadFailed of
                 (s2, eff2) \<Rightarrow> (s2, eff1 @ eff2)))"

fun is_timer :: "effect \<Rightarrow> bool" where
  "is_timer (SetTimeout n) = True"
| "is_timer _ = False"

fun is_AddIssue :: "effect \<Rightarrow> bool" where
  "is_AddIssue (AddIssue d) = True"
| "is_AddIssue _ = False"

text \<open>
  The one way a valid submission stops short: an image is selected, the backend is
  available, the raced upload fails, and the user answers no to the dialog.
\<close>

definition uploadDeclined :: "('a form_backend_scheme) \<Rightarrow> FormState \<Rightarrow> bool" where
  "uploadDeclined be s =
     (case selectedImage s of
        None \<Rightarrow> False
      | Some img \<Rightarrow>
          isFirebaseAvailable be \<and> isl (raceUpload be img) \<and> \<not> confirm be msg_confirm)"

section \<open>App.tsx, components/AdminDashboard.tsx\<close>

text \<open>\<^verbatim>\<open>Partial<Issue>\<close>: every property may be missing.\<close>

record IssueUpdates =
  iu_title :: "string option"
  iu_description :: "string option"
  iu_category :: "string option"
  iu_status :: "IssueStatus option"
  iu_location :: "Location option"
  iu_imageUrl :: "string option"
  iu_assignedTo :: "string option"

definition no_updates :: IssueUpdates where
  "no_updates =
     \<lparr>iu_title = None, iu_description = None, iu_category = None, iu_status = None,
      iu_location = None, iu_imageUrl = None, iu_assignedTo = None\<rparr>"

text \<open>The object spread \<^verbatim>\<open>{ ...issue, ...updates }\<close>.\<close>

definition spreadIssue :: "Issue \<Rightarrow> IssueUpdates \<Rightarrow> Issue" where
  "spreadIssue issue u =
     issue\<lparr>is_title := (case iu_title u of None \<Rightarrow> is_title issue | Some v \<Rightarrow> v),
           is_description := (case iu_description u of None \<Rightarrow> is_description issue | Some v \<Rightarrow> v),
           is_category := (case iu_category u of None \<Rightarrow> is_category issue | Some v \<Rightarrow> v),
           is_status := (case iu_status u of None \<Rightarrow> is_status issue | Some v \<Rightarrow> v),
           is_location := (case iu_location u of None \<Rightarrow> is_location issue | Some v \<Rightarrow> v),
           is_imageUrl := (case iu_imageUrl u of None \<Rightarrow> is_imageUrl issue | Some v \<Rightarrow> Some v),
           is_assignedTo :=
             (case iu_assignedTo u of None \<Rightarrow> is_assignedTo issue | Some v \<Rightarrow> Some v)\<rparr>"

text \<open>\<open>App.handleUpdateIssue\<close>, the \<^verbatim>\<open>onUpdateIssue\<close> prop of the dashboard.\<close>

definition handleUpdateIssue :: "Issue list \<Rightarrow> string \<Rightarrow> IssueUpdates \<Rightarrow> Issue list" where
  "handleUpdateIssue prev issueId updates =
     map (\<lambda>issue. if is_id issue = issueId then spreadIssue issue updates else issue) prev"

text \<open>
  \<open>updateIssue\<close> of services/issues.ts. \<open>updateIssueDoc\<close> is the SDK's
  \<^verbatim>\<open>updateDoc\<close> on the issues collection: its rejection, if any. The handlers below
  return the dashboard's issue list afterwards and the document updates requested.
\<close>

record app_backend = form_backend +
  updateIssueDoc :: "string \<Rightarrow> IssueUpdates \<Rightarrow> js_error option"

definition updateIssue :: "('a app_backend_scheme) \<Rightarrow> string \<Rightarrow> IssueUpdates \<Rightarrow> js_error option" where
  "updateIssue be issueId updates =
     (if \<not> isFirebaseAvailable be then Some (Error ''Firebase not available'')
      else updateIssueDoc be issueId updates)"

record Vendor =
  vn_id :: string
  vn_name :: string
  vn_email :: string
  vn_phone :: string
  vn_specialities :: "string list"
  vn_location :: string
  vn_rating :: real
  vn_totalJobs :: nat
  vn_baseQuote :: real
  vn_description :: string
  vn_verified :: bool
  vn_createdAt :: nat
  vn_updatedAt :: nat

text \<open>The body shared by the three handlers: update the document, then the list.\<close>

definition updateThenNotify ::
  "('a app_backend_scheme) \<Rightarrow> Issue list \<Rightarrow> string \<Rightarrow> IssueUpdates \<Rightarrow>
     Issue list \<times> (string \<times> IssueUpdates) list" where
  "updateThenNotify be issues issueId updates =
     (case updateIssue be issueId updates of
        None \<Rightarrow> (handleUpdateIssue issues issueId updates, [(issueId, updates)])
      | Some e \<Rightarrow> (issues, (if isFirebaseAvailable be then [(issueId, updates)] else [])))"

definition handleStatusUpdate ::
  "('a app_backend_scheme) \<Rightarrow> Issue list \<Rightarrow> string \<Rightarrow> IssueStatus \<Rightarrow>
     Issue list \<times> (string \<times> IssueUpdates) list" where
  "handleStatusUpdate be issues issueId newStatus =
     updateThenNotify be issues issueId (no_updates\<lparr>iu_status := Some newStatus\<rparr>)"

definition handleAssignmentUpdate ::
  "('a app_backend_scheme) \<Rightarrow> Issue list \<Rightarrow> string \<Rightarrow> string \<Rightarrow>
     Issue list \<times> (string \<times> IssueUpdates) list" where
  "handleAssignmentUpdate be issues issueId assignee =
     updateThenNotify be issues issueId (no_updates\<lparr>iu_assignedTo := Some assignee\<rparr>)"

definition vendorNameOf :: "Vendor list \<Rightarrow> string \<Rightarrow> string" where
  "vendorNameOf vendors vendorId =
     (case find (\<lambda>v. vn_id v = vendorId) vendors of
        Some vendor \<Rightarrow> vn_name vendor
      | None \<Rightarrow> ''Vendor-'' @ vendorId)"

definition handleAssignVendor ::
  "('a app_backend_scheme) \<Rightarrow> Vendor list \<Rightarrow> Issue list \<Rightarrow> string \<Rightarrow> string \<Rightarrow>
     Issue list \<times> (string \<times> IssueUpdates) list" where
  "handleAssignVendor be vendors issues issueId vendorId =
     updateThenNotify be issues issueId
       (no_updates\<lparr>iu_assignedTo := Some (vendorNameOf vendors vendorId),
                    iu_status := Some ''in-progress''\<rparr>)"

text \<open>
  The values of the items of the dashboard's two status selects; \<open>handleStatusUpdate\<close>
  is their \<^verbatim>\<open>onValueChange\<close>, called with \<^verbatim>\<open>value as Issue["status"]\<close>.
\<close>

definition dashboardStatusOptions :: "string list" where
  "dashboardStatusOptions = [''reported'', ''acknowledged'', ''in-progress'', ''resolved'']"

text \<open>
  \<^verbatim>\<open>String.prototype.includes\<close>: \<open>includes_str s q\<close> is \<^verbatim>\<open>s.includes(q)\<close>.
\<close>

fun includes_str :: "string \<Rightarrow> string \<Rightarrow> bool" where
  "includes_str [] q = (q = [])"
| "includes_str (c # s) q = (prefix q (c # s) \<or> includes_str s q)"

text \<open>
  \<^verbatim>\<open>String.prototype.toLowerCase\<close> is the platform's Unicode lower-casing. It is not
  code of this repository and is an argument of the filter: \<open>toLowerCase\<close> below stands
  for whatever function the platform provides.
\<close>

definition matchesSearch :: "(string \<Rightarrow> string) \<Rightarrow> string \<Rightarrow> Issue \<Rightarrow> bool" where
  "matchesSearch toLowerCase searchQuery issue =
     (includes_str (toLowerCase (is_title issue)) (toLowerCase searchQuery)
      \<or> includes_str (toLowerCase (is_description issue)) (toLowerCase searchQuery)
      \<or> includes_str (toLowerCase (loc_address (is_location issue))) (toLowerCase searchQuery))"

definition matchesStatus :: "string \<Rightarrow> Issue \<Rightarrow> bool" where
  "matchesStatus filterStatus issue =
     (filterStatus = ''all'' \<or> is_status issue = filterStatus)"

definition matchesCategory :: "string \<Rightarrow> Issue \<Rightarrow> bool" where
  "matchesCategory filterCategory issue =
     (filterCategory = ''all'' \<or> is_category issue = filterCategory)"

definition matchesAssignee :: "string \<Rightarrow> Issue \<Rightarrow> bool" where
  "matchesAssignee filterAssignee issue =
     (filterAssignee = ''all''
      \<or> (filterAssignee = ''unassigned'' \<and> \<not> truthy (is_assignedTo issue))
      \<or> is_assignedTo issue = Some filterAssignee)"

definition filteredIssues ::
  "(string \<Rightarrow> string) \<Rightarrow> Issue list \<Rightarrow> string \<Rightarrow> string \<Rightarrow> string \<Rightarrow> string \<Rightarrow> Issue list" where
  "filteredIssues toLowerCase issues searchQuery filterStatus filterCategory filterAssignee =
     filter (\<lambda>issue. matchesSearch toLowerCase searchQuery issue
                    \<and> matchesStatus filterStatus issue
                    \<and> matchesCategory filterCategory issue
                    \<and> matchesAssignee filterAssignee issue) issues"

section \<open>components/VendorManagement.tsx\<close>

text \<open>The \<^verbatim>\<open>issue\<close> prop may be \<^verbatim>\<open>null\<close> or \<^verbatim>\<open>undefined\<close>: \<open>None\<close>.\<close>

definition relevantVendors :: "Issue option \<Rightarrow> Vendor list \<Rightarrow> Vendor list" where
  "relevantVendors issue vendors =
     filter (\<lambda>vendor.
        (case issue of
           None \<Rightarrow> True
         | Some i \<Rightarrow> length (vn_specialities vendor) = 0
                     \<or> is_category i \<in> set (vn_specialities vendor))) vendors"

definition displayVendors :: "Issue option \<Rightarrow> Vendor list \<Rightarrow> Vendor list" where
  "displayVendors issue vendors =
     (if length (relevantVendors issue vendors) > 0 then relevantVendors issue vendors
      else vendors)"

text \<open>
  The component renders nothing without an issue; with one, it renders a card with an
  assign button for each of \<open>displayVendors\<close>.
\<close>

definition offeredVendors :: "Issue option \<Rightarrow> Vendor list \<Rightarrow> Vendor list" where
  "offeredVendors issue vendors =
     (case issue of None \<Rightarrow> [] | Some i \<Rightarrow> displayVendors issue vendors)"

text \<open>
  The matching rule in the words of the specification, for comparison: the vendors whose
  specialities list contains the issue's category.
\<close>

definition categoryMembershipFilter :: "Issue \<Rightarrow> Vendor list \<Rightarrow> Vendor list" where
  "categoryMembershipFilter issue vendors =
     filter (\<lambda>vendor. is_category issue \<in> set (vn_specialities vendor)) vendors"

section \<open>services/location.ts\<close>

record LocationResult =
  lr_address :: string
  lr_lat :: real
  lr_lng :: real
  lr_error :: "string option"

record PositionOptions =
  enableHighAccuracy :: "bool option"
  timeout :: "nat option"
  maximumAge :: "nat option"

text \<open>\<^verbatim>\<open>defaultOptions\<close>: the three defaults, overridden by the caller's options.\<close>

definition defaultOptions :: "PositionOptions option \<Rightarrow> bool \<times> nat \<times> nat" where
  "defaultOptions options =
     (case options of
        None \<Rightarrow> (True, 10000, 300000)
      | Some opt \<Rightarrow>
          (case enableHighAccuracy opt of None \<Rightarrow> True | Some b \<Rightarrow> b,
           case timeout opt of None \<Rightarrow> 10000 | Some t \<Rightarrow> t,
           case maximumAge opt of None \<Rightarrow> 300000 | Some a \<Rightarrow> a))"

text \<open>
  The browser's answer to \<^verbatim>\<open>getCurrentPosition\<close>: the success callback with latitude,
  longitude and accuracy, or the error callback with an error code. The codes are the
  platform's constants.
\<close>

datatype geo_response = Position real real real | PositionError nat

definition PERMISSION_DENIED :: nat where "PERMISSION_DENIED = 1"
definition POSITION_UNAVAILABLE :: nat where "POSITION_UNAVAILABLE = 2"
definition TIMEOUT :: nat where "TIMEOUT = 3"

text \<open>
  \<^verbatim>\<open>navigator\<close>: \<open>geolocation\<close> is \<open>None\<close> when the browser has no geolocation,
  and otherwise answers a request made with the given options.
\<close>

record navigator =
  geolocation :: "(bool \<times> nat \<times> nat \<Rightarrow> geo_response) option"

definition isGeolocationSupported :: "navigator \<Rightarrow> bool" where
  "isGeolocationSupported nav = (geolocation nav \<noteq> None)"

text \<open>
  \<^verbatim>\<open>x.toFixed(6)\<close> for a finite number below \<open>10\<^sup>2\<^sup>1\<close> in magnitude: the sign, then
  the nearest multiple of \<open>10\<^sup>-\<^sup>6\<close> (the larger one on a tie) in decimal with six
  fraction digits.
\<close>

definition toFixed6 :: "real \<Rightarrow> string" where
  "toFixed6 x =
     (let n = nat \<lfloor>\<bar>x\<bar> * 1000000 + 1 / 2\<rfloor>;
          frac = string_of_nat (n mod 1000000)
      in (if x < 0 then ''-'' else []) @ string_of_nat (n div 1000000) @ ''.'' @
         replicate (6 - length frac) (CHR ''0'') @ frac)"

text \<open>The table of cities: name, latitude, longitude, radius.\<close>

definition cities :: "(string \<times> real \<times> real \<times> real) list" where
  "cities =
     [(''Ranchi'', 23.3441, 85.3096, 0.5),
      (''Dhanbad'', 23.7957, 86.4304, 0.3),
      (''Jamshedpur'', 22.8046, 86.2029, 0.4),
      (''Bokaro'', 23.6693, 85.9512, 0.2),
      (''Deoghar'', 24.4823, 86.7042, 0.2)]"

definition getLocationName :: "real \<Rightarrow> real \<Rightarrow> string" where
  "getLocationName lat lng =
     (case find (\<lambda>(name, clat, clng, radius).
                   sqrt ((lat - clat)\<^sup>2 + (lng - clng)\<^sup>2) \<le> radius) cities of
        Some (name, clat, clng, radius) \<Rightarrow> ''Near '' @ name @ '', Jharkhand''
      | None \<Rightarrow> toFixed6 lat @ '', '' @ toFixed6 lng @ '' (Jharkhand)'')"

text \<open>How a promise has settled.\<close>

datatype 'a settled = Fulfilled 'a | Rejected js_error

definition getUserLocation :: "navigator \<Rightarrow> PositionOptions option \<Rightarrow> LocationResult settled" where
  "getUserLocation nav options =
     (case geolocation nav of
        None \<Rightarrow>
          Fulfilled \<lparr>lr_address = ''Geolocation not supported'', lr_lat = 0, lr_lng = 0,
                     lr_error = Some ''Geolocation is not supported by this browser''\<rparr>
      | Some getCurrentPosition \<Rightarrow>
          (case getCurrentPosition (defaultOptions options) of
             Position latitude longitude accuracy \<Rightarrow>
               Fulfilled \<lparr>lr_address = getLocationName latitude longitude,
                          lr_lat = latitude, lr_lng = longitude, lr_error = None\<rparr>
           | PositionError code \<Rightarrow>
               (let (errorMessage, fallbackAddress) =
                      (if code = PERMISSION_DENIED then
                         (''Location permission denied by user'', ''Location permission denied'')
                       else if code = POSITION_UNAVAILABLE then
                         (''Location information is unavailable'', ''Location unavailable'')
                       else if code = TIMEOUT then
                         (''Location request timed out'', ''Location timeout'')
                       else (''Unknown location error'', ''Location unavailable''))
                in Fulfilled \<lparr>lr_address = fallbackAddress, lr_lat = 0, lr_lng = 0,
                              lr_error = Some errorMessage\<rparr>)))"

section \<open>components/IssueDetailsModal.tsx\<close>

record DetailsEditData =
  de_title :: string
  de_description :: string
  de_category :: string
  de_location :: Location

record DetailsState =
  dm_isEditing :: bool
  dm_editData :: DetailsEditData
  dm_loading :: bool
  dm_error :: string

definition canEdit :: "bool \<Rightarrow> UserProfile \<Rightarrow> Issue \<Rightarrow> bool" where
  "canEdit isAdminView currentUser issue =
     (\<not> isAdminView
      \<and> (is_reportedBy issue = up_email currentUser \<or> is_reportedBy issue = ''You'')
      \<and> (is_status issue = ''reported'' \<or> is_status issue = ''acknowledged''))"

definition handleEditStart :: "Issue \<Rightarrow> DetailsState \<Rightarrow> DetailsState" where
  "handleEditStart issue st =
     st\<lparr>dm_editData :=
          \<lparr>de_title = is_title issue, de_description = is_description issue,
           de_category = is_category issue, de_location = is_location issue\<rparr>,
        dm_isEditing := True, dm_error := []\<rparr>"

text \<open>
  \<open>handleEditSave\<close> gives the dialog's state afterwards, the document updates
  requested, and the calls of the \<^verbatim>\<open>onIssueUpdate\<close> prop.
\<close>

definition handleEditSave ::
  "('a app_backend_scheme) \<Rightarrow> Issue \<Rightarrow> DetailsState \<Rightarrow>
     DetailsState \<times> (string \<times> IssueUpdates) list \<times> (string \<times> IssueUpdates) list" where
  "handleEditSave be issue st =
     (let editData = dm_editData st in
      if de_title editData = [] \<or> de_description editData = [] \<or> de_category editData = [] then
        (st\<lparr>dm_error := msg_required\<rparr>, [], [])
      else
        let updates =
              no_updates\<lparr>iu_title := Some (de_title editData),
                         iu_description := Some (de_description editData),
                         iu_category := Some (de_category editData),
                         iu_location := Some (de_location editData)\<rparr>
        in case updateIssue be (is_id issue) updates of
             None \<Rightarrow>
               (st\<lparr>dm_loading := False, dm_error := [], dm_isEditing := False\<rparr>,
                [(is_id issue, updates)], [(is_id issue, updates)])
           | Some e \<Rightarrow>
               (st\<lparr>dm_loading := False,
                   dm_error := ''Failed to update issue. Please try again.''\<rparr>,
                (if isFirebaseAvailable be then [(is_id issue, updates)] else []), []))"

section \<open>components/SettingsModal.tsx\<close>

record SettingsEditData =
  se_title :: string
  se_description :: string
  se_category :: string
  se_status :: IssueStatus

text \<open>
  The dialog's state. Of \<^verbatim>\<open>citizenData\<close> (which may be \<^verbatim>\<open>null\<close>) only the list of
  issues is kept.
\<close>

record SettingsState =
  sm_allIssues :: "Issue list"
  sm_citizenIssues :: "Issue list option"
  sm_editingIssue :: "string option"
  sm_editData :: SettingsEditData
  sm_loading :: bool
  sm_error :: string

definition settingsInitial :: SettingsState where
  "settingsInitial =
     \<lparr>sm_allIssues = [], sm_citizenIssues = None, sm_editingIssue = None,
      sm_editData = \<lparr>se_title = [], se_description = [], se_category = [], se_status = []\<rparr>,
      sm_loading = False, sm_error = []\<rparr>"

definition categories :: "string list" where
  "categories =
     [''Road/Sidewalk'', ''Street Lighting'', ''Waste Management'', ''Vandalism'',
      ''Parks/Recreation'', ''Public Safety'', ''Noise Complaint'', ''Water/Drainage'',
      ''Other'']"

text \<open>The values of the options of the edit form's status select.\<close>

definition settingsStatusOptions :: "string list" where
  "settingsStatusOptions = [''reported'', ''acknowledged'', ''in-progress'', ''resolved'']"

definition handleEditIssue :: "Issue \<Rightarrow> SettingsState \<Rightarrow> SettingsState" where
  "handleEditIssue issue st =
     st\<lparr>sm_editingIssue := Some (is_id issue),
        sm_editData :=
          \<lparr>se_title = is_title issue, se_description = is_description issue,
           se_category = is_category issue, se_status = is_status issue\<rparr>,
        sm_error := []\<rparr>"

definition handleSaveEdit ::
  "('a app_backend_scheme) \<Rightarrow> string \<Rightarrow> SettingsState \<Rightarrow>
     SettingsState \<times> (string \<times> IssueUpdates) list" where
  "handleSaveEdit be issueId st =
     (let editData = sm_editData st in
      if se_title editData = [] \<or> se_description editData = [] \<or> se_category editData = [] then
        (st\<lparr>sm_error := msg_required\<rparr>, [])
      else
        let updates =
              no_updates\<lparr>iu_title := Some (se_title editData),
                         iu_description := Some (se_description editData),
                         iu_category := Some (se_category editData),
                         iu_status := Some (se_status editData)\<rparr>
        in case updateIssue be issueId updates of
             None \<Rightarrow>
               (st\<lparr>sm_citizenIssues :=
                     map_option
                       (map (\<lambda>issue. if is_id issue = issueId then spreadIssue issue updates
                                     else issue))
                       (sm_citizenIssues st),
                   sm_editingIssue := None, sm_loading := False, sm_error := []\<rparr>,
                [(issueId, updates)])
           | Some e \<Rightarrow>
               (st\<lparr>sm_loading := False,
                   sm_error := ''Failed to update issue. Please try again.''\<rparr>,
                (if isFirebaseAvailable be then [(issueId, updates)] else [])))"

definition handleCancelEdit :: "SettingsState \<Rightarrow> SettingsState" where
  "handleCancelEdit st = st\<lparr>sm_editingIssue := None, sm_error := []\<rparr>"

text \<open>
  What can happen to the open dialog: the subscription delivers the issues
  (\<^verbatim>\<open>setAllIssues\<close>), a citizen search replaces \<^verbatim>\<open>citizenData\<close>, and the controls of
  the citizen's list are used. The search itself (\<open>handleSearchCitizen\<close>) is not
  followed in detail: it sets \<^verbatim>\<open>citizenData\<close> to \<^verbatim>\<open>null\<close> or to a selection of
  \<^verbatim>\<open>allIssues\<close>, and \<open>CitizenDataSet\<close> stands for any such outcome.
\<close>

datatype settings_event =
    Snapshot "Issue list"
  | CitizenDataSet "Issue list option"
  | EditIssue Issue
  | SetTitle string
  | SetCategory string
  | SetDescription string
  | SetStatus string
  | CancelEdit
  | SaveEdit string

fun settingsStep ::
  "('a app_backend_scheme) \<Rightarrow> SettingsState \<Rightarrow> settings_event \<Rightarrow>
     SettingsState \<times> (string \<times> IssueUpdates) list" where
  "settingsStep be st (Snapshot issues) = (st\<lparr>sm_allIssues := issues\<rparr>, [])"
| "settingsStep be st (CitizenDataSet d) = (st\<lparr>sm_citizenIssues := d\<rparr>, [])"
| "settingsStep be st (EditIssue issue) = (handleEditIssue issue st, [])"
| "settingsStep be st (SetTitle v) = (st\<lparr>sm_editData := (sm_editData st)\<lparr>se_title := v\<rparr>\<rparr>, [])"
| "settingsStep be st (SetCategory v) =
     (st\<lparr>sm_editData := (sm_editData st)\<lparr>se_category := v\<rparr>\<rparr>, [])"
| "settingsStep be st (SetDescription v) =
     (st\<lparr>sm_editData := (sm_editData st)\<lparr>se_description := v\<rparr>\<rparr>, [])"
| "settingsStep be st (SetStatus v) = (st\<lparr>sm_editData := (sm_editData st)\<lparr>se_status := v\<rparr>\<rparr>, [])"
| "settingsStep be st CancelEdit = (handleCancelEdit st, [])"
| "settingsStep be st (SaveEdit issueId) = handleSaveEdit be issueId st"

text \<open>
  What the rendered dialog offers in a state. Each issue of \<^verbatim>\<open>citizenData.issues\<close> is
  shown either with its edit button or, when \<^verbatim>\<open>editingIssue === issue.id\<close>, as the edit
  form with its inputs, its two selects and the cancel and save buttons.
\<close>

definition editFormShown :: "SettingsState \<Rightarrow> bool" where
  "editFormShown st =
     (case sm_citizenIssues st of
        None \<Rightarrow> False
      | Some issues \<Rightarrow> \<exists>issue \<in> set issues. sm_editingIssue st = Some (is_id issue))"

fun eventOffered :: "SettingsState \<Rightarrow> settings_event \<Rightarrow> bool" where
  "eventOffered st (Snapshot issues) = True"
| "eventOffered st (CitizenDataSet d) =
     (case d of None \<Rightarrow> True | Some issues \<Rightarrow> set issues \<subseteq> set (sm_allIssues st))"
| "eventOffered st (EditIssue issue) =
     (case sm_citizenIssues st of
        None \<Rightarrow> False
      | Some issues \<Rightarrow> issue \<in> set issues \<and> sm_editingIssue st \<noteq> Some (is_id issue))"
| "eventOffered st (SetTitle v) = editFormShown st"
| "eventOffered st (SetCategory v) = (editFormShown st \<and> v \<in> set categories)"
| "eventOffered st (SetDescription v) = editFormShown st"
| "eventOffered st (SetStatus v) = (editFormShown st \<and> v \<in> set settingsStatusOptions)"
| "eventOffered st CancelEdit = editFormShown st"
| "eventOffered st (SaveEdit issueId) =
     (\<not> sm_loading st
      \<and> (case sm_citizenIssues st of
           None \<Rightarrow> False
         | Some issues \<Rightarrow>
             (\<exists>issue \<in> set issues. is_id issue = issueId) \<and> sm_editingIssue st = Some issueId))"

text \<open>A session with the dialog: the events in order, from a given state.\<close>

fun settingsRun ::
  "('a app_backend_scheme) \<Rightarrow> SettingsState \<Rightarrow> settings_event list \<Rightarrow>
     SettingsState \<times> (string \<times> IssueUpdates) list" where
  "settingsRun be st [] = (st, [])"
| "settingsRun be st (ev # evs) =
     (fst (settingsRun be (fst (settingsStep be st ev)) evs),
      snd (settingsStep be st ev) @ snd (settingsRun be (fst (settingsStep be st ev)) evs))"

fun settingsOffered :: "('a app_backend_scheme) \<Rightarrow> SettingsState \<Rightarrow> settings_event list \<Rightarrow> bool" where
  "settingsOffered be st [] = True"
| "settingsOffered be st (ev # evs) =
     (eventOffered st ev \<and> settingsOffered be (fst (settingsStep be st ev)) evs)"

text \<open>The issues the subscription delivers during a session all have a valid status.\<close>

fun snapshotsValid :: "settings_event list \<Rightarrow> bool" where
  "snapshotsValid [] = True"
| "snapshotsValid (Snapshot issues # evs) =
     ((\<forall>issue \<in> set issues. valid_status (is_status issue)) \<and> snapshotsValid evs)"
| "snapshotsValid (ev # evs) = snapshotsValid evs"

section \<open>The handlers that write issues\<close>

text \<open>
  \<open>App\<close> shows the dashboard to a user whose role is admin or whose uid is \<open>admin\<close>,
  and the citizen application to everybody else.
\<close>

datatype view = AdminView | CitizenView

definition mainView :: "UserProfile \<Rightarrow> view" where
  "mainView user =
     (if up_role user = Admin \<or> up_uid user = ''admin'' then AdminView else CitizenView)"

text \<open>
  The source calls \<open>addIssue\<close> in one place and \<open>updateIssue\<close> in five, and never
  \<open>deleteIssue\<close>. An \<open>action\<close> is one use of one of these six handlers:
  \<^item> \<open>Submit\<close>: \<open>IssueReportForm.handleSubmit\<close>, on the form state;
  \<^item> \<open>EditSave\<close>: \<open>IssueDetailsModal.handleEditSave\<close>, on the issue shown and the
    dialog's state;
  \<^item> \<open>StatusUpdate\<close>, \<open>AssignmentUpdate\<close>, \<open>AssignVendor\<close>: the three handlers of
    \<open>AdminDashboard\<close>;
  \<^item> \<open>Settings\<close>: a session with \<open>SettingsModal\<close>, whose \<open>handleSaveEdit\<close> is the
    fifth caller.
\<close>

datatype action =
    Submit FormState
  | EditSave Issue DetailsState
  | StatusUpdate string IssueStatus
  | AssignmentUpdate string string
  | AssignVendor string string
  | Settings "settings_event list"

datatype issue_write = CreateIssue IssueDoc | UpdateIssue string IssueUpdates

fun created :: "effect list \<Rightarrow> issue_write list" where
  "created [] = []"
| "created (AddDoc doc # effs) = CreateIssue doc # created effs"
| "created (eff # effs) = created effs"

definition updated :: "(string \<times> IssueUpdates) list \<Rightarrow> issue_write list" where
  "updated reqs = map (\<lambda>(issueId, updates). UpdateIssue issueId updates) reqs"

text \<open>
  The documents an action asks the backend to create or update, for the signed-in user
  \<open>user\<close>, the dashboard's vendors and the application's issue list.
\<close>

fun issueWrites ::
  "('a app_backend_scheme) \<Rightarrow> UserProfile \<Rightarrow> Vendor list \<Rightarrow> Issue list \<Rightarrow> action \<Rightarrow>
     issue_write list" where
  "issueWrites be user vendors issues (Submit s) =
     created (snd (handleSubmit be (up_email user) s))"
| "issueWrites be user vendors issues (EditSave issue st) =
     updated (fst (snd (handleEditSave be issue st)))"
| "issueWrites be user vendors issues (StatusUpdate issueId newStatus) =
     updated (snd (handleStatusUpdate be issues issueId newStatus))"
| "issueWrites be user vendors issues (AssignmentUpdate issueId assignee) =
     updated (snd (handleAssignmentUpdate be issues issueId assignee))"
| "issueWrites be user vendors issues (AssignVendor issueId vendorId) =
     updated (snd (handleAssignVendor be vendors issues issueId vendorId))"
| "issueWrites be user vendors issues (Settings evs) =
     updated (snd (settingsRun be settingsInitial evs))"

text \<open>
  Which actions the application offers to the signed-in user. The report form and the
  details dialog with \<^verbatim>\<open>isAdminView={false}\<close> belong to the citizen application; the
  status selects, the vendor dialog, the settings dialog and the details dialog with
  \<^verbatim>\<open>isAdminView={true}\<close> belong to the dashboard. The details dialog shows its save
  button while editing, and its edit button only when \<open>canEdit\<close> holds.
\<close>

fun offered :: "('a app_backend_scheme) \<Rightarrow> UserProfile \<Rightarrow> action \<Rightarrow> bool" where
  "offered be user (Submit s) = (mainView user = CitizenView)"
| "offered be user (EditSave issue st) =
     (canEdit (mainView user = AdminView) user issue \<and> dm_isEditing st)"
| "offered be user (StatusUpdate issueId newStatus) =
     (mainView user = AdminView \<and> newStatus \<in> set dashboardStatusOptions)"
| "offered be user (AssignmentUpdate issueId assignee) = (mainView user = AdminView)"
| "offered be user (AssignVendor issueId vendorId) = (mainView user = AdminView)"
| "offered be user (Settings evs) =
     (mainView user = AdminView \<and> settingsOffered be settingsInitial evs)"

text \<open>
  What holds of the dialog's state throughout a session: the delivered and the listed
  issues have a valid status, and so has the edited status while an issue is being
  edited.
\<close>

definition settingsInv :: "SettingsState \<Rightarrow> bool" where
  "settingsInv st =
     ((\<forall>issue \<in> set (sm_allIssues st). valid_status (is_status issue))
      \<and> (case sm_citizenIssues st of
           None \<Rightarrow> True
         | Some issues \<Rightarrow> \<forall>issue \<in> set issues. valid_status (is_status issue))
      \<and> (sm_editingIssue st \<noteq> None \<longrightarrow> valid_status (se_status (sm_editData st))))"

fun deliveriesValid :: "action \<Rightarrow> bool" where
  "deliveriesValid (Settings evs) = snapshotsValid evs"
| "deliveriesValid a = True"

section \<open>Sample inputs\<close>

text \<open>A backend on which every call succeeds, and one that is not available.\<close>

definition backend_ok :: backend where
  "backend_ok =
     \<lparr>isFirebaseAvailable = True, be_now = 1700000000000,
      createUserWithEmailAndPassword = (\<lambda>e p. Inr ''u1''),
      updateProfile = (\<lambda>u n. None),
      setDoc = (\<lambda>u p. None),
      signInWithEmailAndPassword = (\<lambda>e p. Inr ''u1''),
      getDoc = (\<lambda>u. Inr None),
      updateDoc = (\<lambda>u p. None),
      deleteDoc = (\<lambda>u. None),
      deleteUser = (\<lambda>u. None)\<rparr>"

definition backend_offline :: backend where
  "backend_offline = backend_ok\<lparr>isFirebaseAvailable := False\<rparr>"

text \<open>
  A form backend on which the upload succeeds in time and the document is written, a
  selected photo and a form with every required field filled in.
\<close>

definition form_backend_ok :: form_backend where
  "form_backend_ok =
     backend.extend backend_ok
       (form_backend.fields (\<lambda>r f. None) (\<lambda>r. Inr ''https://img/1'') True (\<lambda>m. True)
          (\<lambda>d. Inr ''issue1''))"

definition photo :: File where
  "photo = \<lparr>file_name = ''pothole.jpg'', file_size = 1000\<rparr>"

definition filled_form :: FormState where
  "filled_form =
     \<lparr>title = ''Pothole'', description = ''Deep pothole'', category = ''Road/Sidewalk'',
      location = ''Near Ranchi, Jharkhand'', latLng = Some (23.3441, 85.3096),
      imageUrl = ''blob:1'', selectedImage = Some photo, isRecording = False,
      audioDescription = [], loading = False, error = []\<rparr>"

text \<open>
  Backends on which the upload is refused and the user answers no to the dialog, and on
  which the upload is still running when the timer fires.
\<close>

definition form_backend_declined :: form_backend where
  "form_backend_declined =
     form_backend_ok\<lparr>uploadBytes := (\<lambda>r f. Some (Error ''storage/unauthorized'')),
                      confirm := (\<lambda>m. False)\<rparr>"

definition form_backend_slow :: form_backend where
  "form_backend_slow = form_backend_ok\<lparr>uploadSettlesBeforeTimeout := False\<rparr>"

definition app_backend_ok :: app_backend where
  "app_backend_ok = form_backend.extend form_backend_ok (app_backend.fields (\<lambda>i u. None))"

definition road_issue :: Issue where
  "road_issue =
     \<lparr>is_id = ''i1'', is_title = ''Pothole on Main Road'', is_description = ''Deep pothole'',
      is_category = ''Road/Sidewalk'', is_status = ''reported'',
      is_location =
        \<lparr>loc_address = ''Near Ranchi, Jharkhand'', loc_lat = 23.3441, loc_lng = 85.3096\<rparr>,
      is_imageUrl = None, is_reportedBy = ''a@b.in'', is_reportedAt = 1700000000000,
      is_assignedTo = None\<rparr>"

definition light_issue :: Issue where
  "light_issue =
     road_issue\<lparr>is_id := ''i2'', is_title := ''Street light broken'',
                 is_description := ''Dark at night'', is_category := ''Street Lighting'',
                 is_status := ''in-progress'', is_assignedTo := Some ''Bijli Works''\<rparr>"

definition generalist :: Vendor where
  "generalist =
     \<lparr>vn_id = ''v1'', vn_name = ''General Works'', vn_email = ''g@w.in'', vn_phone = ''1'',
      vn_specialities = [], vn_location = ''Ranchi'', vn_rating = 0, vn_totalJobs = 0,
      vn_baseQuote = 1000, vn_description = [], vn_verified = False,
      vn_createdAt = 0, vn_updatedAt = 0\<rparr>"

definition electrician :: Vendor where
  "electrician =
     generalist\<lparr>vn_id := ''v2'', vn_name := ''Bijli Works'',
                 vn_specialities := [''Street Lighting'']\<rparr>"

definition roadworker :: Vendor where
  "roadworker =
     generalist\<lparr>vn_id := ''v3'', vn_name := ''Sadak Nirman'',
                 vn_specialities := [''Road/Sidewalk'', ''Water/Drainage'']\<rparr>"

text \<open>
  A lower-casing for the examples. It agrees with the platform's on the ASCII letters and
  on the letter E with acute accent (in UTF-8 the bytes C3 89, in lower case C3 A9) and
  leaves every other character as it is.
\<close>

definition lower_char :: "char \<Rightarrow> char" where
  "lower_char c =
     (case map_of (zip ''ABCDEFGHIJKLMNOPQRSTUVWXYZ'' ''abcdefghijklmnopqrstuvwxyz'') c of
        None \<Rightarrow> c
      | Some l \<Rightarrow> l)"

fun sample_lower :: "string \<Rightarrow> string" where
  "sample_lower [] = []"
| "sample_lower [c] = [lower_char c]"
| "sample_lower (c # d # cs) =
     (if c = CHR 0xC3 \<and> d = CHR 0x89 then CHR 0xC3 # CHR 0xA9 # sample_lower cs
      else lower_char c # sample_lower (d # cs))"

definition cafe_issue :: Issue where
  "cafe_issue =
     road_issue\<lparr>is_id := ''i3'', is_title := ''CAF'' @ [CHR 0xC3, CHR 0x89] @ '' road''\<rparr>"

definition citizen_user :: UserProfile where
  "citizen_user =
     \<lparr>up_uid = ''u1'', up_name = ''Asha'', up_email = ''a@b.in'', up_phone = ''123'',
      up_role = Citizen, up_profileImageUrl = None,
      up_createdAt = ServerTimestamp, up_updatedAt = ServerTimestamp\<rparr>"

definition editing_road_issue :: DetailsState where
  "editing_road_issue =
     handleEditStart road_issue
       \<lparr>dm_isEditing = False,
        dm_editData =
          \<lparr>de_title = [], de_description = [], de_category = [],
           de_location = \<lparr>loc_address = [], loc_lat = 0, loc_lng = 0\<rparr>\<rparr>,
        dm_loading = False, dm_error = []\<rparr>"

definition resolve_road_issue :: "settings_event list" where
  "resolve_road_issue =
     [Snapshot [road_issue, light_issue], CitizenDataSet (Some [road_issue]),
      EditIssue road_issue, SetStatus ''resolved'', SaveEdit ''i1'']"

definition nav_unsupported :: navigator where
  "nav_unsupported = \<lparr>geolocation = None\<rparr>"

definition nav_at_ranchi :: navigator where
  "nav_at_ranchi = \<lparr>geolocation = Some (\<lambda>opts. Position 23.3441 85.3096 12)\<rparr>"

definition nav_timeout :: navigator where
  "nav_timeout = \<lparr>geolocation = Some (\<lambda>opts. PositionError TIMEOUT)\<rparr>"

section \<open>Properties\<close>

subsection \<open>Error-message mapping\<close>

text \<open>
  C7. The error-message mapping is a pure substitution: \<open>handleFirebaseError\<close> returns
  the fixed offline text exactly when the error's code is \<open>unavailable\<close> or
  \<open>deadline-exceeded\<close>; otherwise it returns the error's own message, or the fixed
  fallback text when the error has no message (the message is absent or empty, the two
  cases in which \<^verbatim>\<open>error.message || ...\<close> takes its right-hand side).
\<close>

theorem handleFirebaseError_mapping:
  "(err_code e = Some ''unavailable'' \<or> err_code e = Some ''deadline-exceeded'' \<longrightarrow>
      handleFirebaseError e = ''Service temporarily unavailable. Operating in offline mode.'')
   \<and> (err_code e \<noteq> Some ''unavailable'' \<and> err_code e \<noteq> Some ''deadline-exceeded'' \<longrightarrow>
      (\<forall>m. err_message e = Some m \<and> m \<noteq> [] \<longrightarrow> handleFirebaseError e = m)
      \<and> (err_message e = None \<or> err_message e = Some [] \<longrightarrow>
           handleFirebaseError e = ''An error occurred. Please try again.''))"
  by (auto simp: handleFirebaseError_def or_else_def)

theorem handleFirebaseError_mapping_witness:
  "handleFirebaseError \<lparr>err_code = Some ''unavailable'', err_message = Some ''x''\<rparr>
     = ''Service temporarily unavailable. Operating in offline mode.''
   \<and> handleFirebaseError \<lparr>err_code = Some ''permission-denied'', err_message = Some ''Denied''\<rparr>
     = ''Denied''
   \<and> handleFirebaseError \<lparr>err_code = None, err_message = None\<rparr>
     = ''An error occurred. Please try again.''"
  using handleFirebaseError_mapping [of "\<lparr>err_code = Some ''unavailable'', err_message = Some ''x''\<rparr>"]
    handleFirebaseError_mapping [of "\<lparr>err_code = Some ''permission-denied'', err_message = Some ''Denied''\<rparr>"]
    handleFirebaseError_mapping [of "\<lparr>err_code = None, err_message = None\<rparr>"]
  by simp


subsection \<open>Registration\<close>

text \<open>
  C2. For every registration input (email, password, name, phone), the profile created
  by \<open>registerUser\<close> has role citizen, on the backend path and on the offline
  local-storage path: whatever profile the call resolves with, writes to the backend or
  stores locally is a citizen profile; offline the call always resolves, and online it
  resolves whenever the three backend calls succeed.
\<close>

theorem registerUser_role_citizen:
  "(\<forall>p. returned (registerUser be ls email password name phone) = Inr p \<longrightarrow> up_role p = Citizen)
   \<and> (\<forall>u p. SetDoc u p \<in> set (calls (registerUser be ls email password name phone)) \<longrightarrow>
         up_role p = Citizen)
   \<and> (\<not> isFirebaseAvailable be \<longrightarrow>
        (\<exists>p. returned (registerUser be ls email password name phone) = Inr p
           \<and> storage (registerUser be ls email password name phone) user_key = Some p
           \<and> up_role p = Citizen))
   \<and> (isFirebaseAvailable be \<longrightarrow>
        (\<forall>u. createUserWithEmailAndPassword be email password = Inr u
           \<and> updateProfile be u name = None \<and> (\<forall>p. setDoc be u p = None) \<longrightarrow>
           (\<exists>p. returned (registerUser be ls email password name phone) = Inr p
              \<and> up_uid p = u \<and> up_role p = Citizen)))"
  by (auto simp: registerUser_def Let_def split: sum.splits option.splits)

theorem registerUser_role_citizen_witness:
  "(\<exists>p. returned (registerUser backend_ok Map.empty ''a@b.in'' ''pw'' ''Asha'' ''123'') = Inr p
      \<and> up_uid p = ''u1'' \<and> up_role p = Citizen)
   \<and> (\<exists>p. returned (registerUser backend_offline Map.empty ''a@b.in'' ''pw'' ''Asha'' ''123'') = Inr p
      \<and> storage (registerUser backend_offline Map.empty ''a@b.in'' ''pw'' ''Asha'' ''123'') user_key
          = Some p
      \<and> up_role p = Citizen)"
  using registerUser_role_citizen [of backend_ok Map.empty "''a@b.in''" "''pw''" "''Asha''" "''123''"]
    registerUser_role_citizen [of backend_offline Map.empty "''a@b.in''" "''pw''" "''Asha''" "''123''"]
  by (simp add: backend_ok_def backend_offline_def)

subsection \<open>The built-in administrator\<close>

text \<open>
  C8. Signing in with the literal email \<open>admin\<close> and password \<open>admin\<close> always succeeds
  without any backend call: whatever the backend and its availability flag, the call
  resolves with the hard-coded administrator profile (uid \<open>admin\<close>, role admin), makes
  no SDK call and stores that profile in local storage.
\<close>

theorem signInUser_admin:
  "returned (signInUser be ls ''admin'' ''admin'') = Inr (adminProfile (be_now be))
   \<and> calls (signInUser be ls ''admin'' ''admin'') = []
   \<and> storage (signInUser be ls ''admin'' ''admin'') = ls(user_key \<mapsto> adminProfile (be_now be))
   \<and> up_uid (adminProfile (be_now be)) = ''admin''
   \<and> up_role (adminProfile (be_now be)) = Admin"
  by (simp add: signInUser_def adminProfile_def)

text \<open>
  C9. The built-in admin account cannot be modified or removed through the service
  layer: \<open>updateUserProfile\<close> with uid \<open>admin\<close> rejects with
  \<open>Cannot update admin profile\<close> and \<open>deleteUserAccount\<close> for a user whose uid is
  \<open>admin\<close> rejects with \<open>Cannot delete admin account\<close>; neither makes an SDK call and
  local storage is left as it was.
\<close>

theorem admin_account_protected:
  "updateUserProfile be ls ''admin'' updates =
     \<lparr>returned = Inl ''Cannot update admin profile'', calls = [], storage = ls\<rparr>
   \<and> (user_uid user = ''admin'' \<longrightarrow>
        deleteUserAccount be ls user =
          \<lparr>returned = Inl ''Cannot delete admin account'', calls = [], storage = ls\<rparr>)"
  by (simp add: updateUserProfile_def deleteUserAccount_def)

theorem admin_account_protected_witness:
  "updateUserProfile backend_ok [user_key \<mapsto> adminProfile 0] ''admin''
      \<lparr>pu_uid = None, pu_name = Some ''Root'', pu_email = None, pu_phone = None,
        pu_role = Some Citizen, pu_profileImageUrl = None, pu_createdAt = None,
        pu_updatedAt = None\<rparr> =
     \<lparr>returned = Inl ''Cannot update admin profile'', calls = [],
      storage = [user_key \<mapsto> adminProfile 0]\<rparr>
   \<and> deleteUserAccount backend_ok [user_key \<mapsto> adminProfile 0] \<lparr>user_uid = ''admin''\<rparr> =
     \<lparr>returned = Inl ''Cannot delete admin account'', calls = [],
      storage = [user_key \<mapsto> adminProfile 0]\<rparr>"
  using admin_account_protected [of backend_ok "[user_key \<mapsto> adminProfile 0]"
      "\<lparr>pu_uid = None, pu_name = Some ''Root'', pu_email = None, pu_phone = None,
        pu_role = Some Citizen, pu_profileImageUrl = None, pu_createdAt = None,
        pu_updatedAt = None\<rparr>" "\<lparr>user_uid = ''admin''\<rparr>"]
  by simp

subsection \<open>Vendor matching\<close>

text \<open>
  C1, as the specification states it, fails: a vendor with no specialities is offered
  for a road issue although its list does not contain the category, and when no vendor
  qualifies every vendor is offered.
\<close>

theorem offeredVendors_not_membership_filter:
  "offeredVendors (Some road_issue) [generalist, electrician] = [generalist]
   \<and> categoryMembershipFilter road_issue [generalist, electrician] = []
   \<and> offeredVendors (Some road_issue) [electrician] = [electrician]
   \<and> categoryMembershipFilter road_issue [electrician] = []"
  by (simp add: offeredVendors_def displayVendors_def relevantVendors_def
      categoryMembershipFilter_def road_issue_def generalist_def electrician_def)

text \<open>
  C1, amended. The vendors offered for assignment to an issue are the vendors whose
  specialities list is empty or contains the issue's category, in the order of the vendor
  list; when no vendor qualifies, all vendors are offered. Every vendor whose
  specialities contain the category is therefore offered, and the offer is exactly the
  category-membership filter when every vendor lists at least one speciality and at
  least one vendor lists the category.
\<close>

theorem offeredVendors_characterisation:
  "offeredVendors (Some issue) vendors =
     (if \<exists>v \<in> set vendors. vn_specialities v = [] \<or> is_category issue \<in> set (vn_specialities v)
      then filter (\<lambda>v. vn_specialities v = [] \<or> is_category issue \<in> set (vn_specialities v))
             vendors
      else vendors)
   \<and> set (categoryMembershipFilter issue vendors) \<subseteq> set (offeredVendors (Some issue) vendors)
   \<and> ((\<forall>v \<in> set vendors. vn_specialities v \<noteq> []) \<and> categoryMembershipFilter issue vendors \<noteq> []
        \<longrightarrow> offeredVendors (Some issue) vendors = categoryMembershipFilter issue vendors)"
proof -
  let ?P = "\<lambda>v. vn_specialities v = [] \<or> is_category issue \<in> set (vn_specialities v)"
  have rel: "relevantVendors (Some issue) vendors = filter ?P vendors"
    by (simp add: relevantVendors_def)
  have a: "offeredVendors (Some issue) vendors =
     (if \<exists>v \<in> set vendors. ?P v then filter ?P vendors else vendors)"
    by (simp add: offeredVendors_def displayVendors_def rel filter_empty_conv)
  have b: "set (categoryMembershipFilter issue vendors) \<subseteq> set (offeredVendors (Some issue) vendors)"
    unfolding a by (auto simp: categoryMembershipFilter_def)
  have c: "(\<forall>v \<in> set vendors. vn_specialities v \<noteq> []) \<and> categoryMembershipFilter issue vendors \<noteq> []
        \<longrightarrow> offeredVendors (Some issue) vendors = categoryMembershipFilter issue vendors"
  proof
    assume h: "(\<forall>v \<in> set vendors. vn_specialities v \<noteq> [])
      \<and> categoryMembershipFilter issue vendors \<noteq> []"
    then have eq: "filter ?P vendors = categoryMembershipFilter issue vendors"
      by (auto simp: categoryMembershipFilter_def intro: filter_cong)
    from h have "\<exists>v \<in> set vendors. ?P v"
      by (auto simp: categoryMembershipFilter_def filter_empty_conv)
    then show "offeredVendors (Some issue) vendors = categoryMembershipFilter issue vendors"
      using a eq by simp
  qed
  from a b c show ?thesis by blast
qed

theorem offeredVendors_characterisation_witness:
  "offeredVendors (Some road_issue) [generalist, electrician, roadworker] = [generalist, roadworker]
   \<and> offeredVendors (Some road_issue) [electrician, roadworker] = [roadworker]
   \<and> categoryMembershipFilter road_issue [electrician, roadworker] = [roadworker]"
  using offeredVendors_characterisation [of road_issue "[generalist, electrician, roadworker]"]
    offeredVendors_characterisation [of road_issue "[electrician, roadworker]"]
  by (simp add: road_issue_def generalist_def electrician_def roadworker_def
      categoryMembershipFilter_def)

subsection \<open>Dashboard filtering\<close>

lemma includes_str_sublist: "includes_str s q = sublist q s"
  by (induction s) (simp_all add: sublist_Cons_right)

lemma not_truthy_iff: "\<not> truthy v \<longleftrightarrow> v = None \<or> v = Some []"
  by (cases v) (simp_all add: truthy_def)

text \<open>
  C5. Admin dashboard filtering is a conjunction of independent predicates. Whatever
  lower-casing function \<open>toLowerCase\<close> the platform provides, an issue is in
  \<open>filteredIssues\<close> iff it is in the issue list, and the lower-cased search query is a
  substring of its lower-cased title, description or address, and the status filter is
  \<open>all\<close> or the issue's status, and the category filter is \<open>all\<close> or the issue's
  category, and the assignee filter is \<open>all\<close>, or is \<open>unassigned\<close> while the issue
  has no assignee (none or an empty one), or is the issue's assignee. With an empty search
  and every filter \<open>all\<close> the result is the whole list (the lower-casing of the empty
  string being the empty string), and the result is always a subsequence of the list.
\<close>

theorem filteredIssues_conjunction:
  "(issue \<in> set (filteredIssues toLowerCase issues q fs fc fa) \<longleftrightarrow>
      issue \<in> set issues
      \<and> (sublist (toLowerCase q) (toLowerCase (is_title issue))
         \<or> sublist (toLowerCase q) (toLowerCase (is_description issue))
         \<or> sublist (toLowerCase q) (toLowerCase (loc_address (is_location issue))))
      \<and> (fs = ''all'' \<or> is_status issue = fs)
      \<and> (fc = ''all'' \<or> is_category issue = fc)
      \<and> (fa = ''all''
         \<or> (fa = ''unassigned'' \<and> (is_assignedTo issue = None \<or> is_assignedTo issue = Some []))
         \<or> is_assignedTo issue = Some fa))
   \<and> (toLowerCase [] = [] \<longrightarrow> filteredIssues toLowerCase issues [] ''all'' ''all'' ''all'' = issues)
   \<and> subseq (filteredIssues toLowerCase issues q fs fc fa) issues"
proof -
  have a: "issue \<in> set (filteredIssues toLowerCase issues q fs fc fa) \<longleftrightarrow>
      issue \<in> set issues
      \<and> (sublist (toLowerCase q) (toLowerCase (is_title issue))
         \<or> sublist (toLowerCase q) (toLowerCase (is_description issue))
         \<or> sublist (toLowerCase q) (toLowerCase (loc_address (is_location issue))))
      \<and> (fs = ''all'' \<or> is_status issue = fs)
      \<and> (fc = ''all'' \<or> is_category issue = fc)
      \<and> (fa = ''all''
         \<or> (fa = ''unassigned'' \<and> (is_assignedTo issue = None \<or> is_assignedTo issue = Some []))
         \<or> is_assignedTo issue = Some fa)"
    by (simp add: filteredIssues_def matchesSearch_def matchesStatus_def matchesCategory_def
        matchesAssignee_def includes_str_sublist not_truthy_iff)
  have b: "toLowerCase [] = [] \<longrightarrow>
      filteredIssues toLowerCase issues [] ''all'' ''all'' ''all'' = issues"
    by (simp add: filteredIssues_def matchesSearch_def matchesStatus_def matchesCategory_def
        matchesAssignee_def includes_str_sublist)
  have c: "subseq (filteredIssues toLowerCase issues q fs fc fa) issues"
    by (simp add: filteredIssues_def)
  from a b c show ?thesis by blast
qed

theorem filteredIssues_conjunction_witness:
  "road_issue \<in> set (filteredIssues sample_lower [road_issue, light_issue] ''MAIN'' ''reported''
                       ''all'' ''unassigned'')
   \<and> light_issue \<notin> set (filteredIssues sample_lower [road_issue, light_issue] ''POTHOLE'' ''all''
                       ''all'' ''all'')
   \<and> light_issue \<notin> set (filteredIssues sample_lower [road_issue, light_issue] [] ''reported''
                       ''all'' ''all'')
   \<and> cafe_issue \<in> set (filteredIssues sample_lower [cafe_issue]
                       (''caf'' @ [CHR 0xC3, CHR 0xA9]) ''all'' ''all'' ''all'')
   \<and> filteredIssues sample_lower [road_issue, light_issue] [] ''all'' ''all'' ''all''
       = [road_issue, light_issue]
   \<and> subseq (filteredIssues sample_lower [road_issue, light_issue] ''MAIN'' ''reported'' ''all''
               ''unassigned'')
        [road_issue, light_issue]"
  using filteredIssues_conjunction [of road_issue sample_lower "[road_issue, light_issue]"
      "''MAIN''" "''reported''" "''all''" "''unassigned''"]
    filteredIssues_conjunction [of light_issue sample_lower "[road_issue, light_issue]"
      "''POTHOLE''" "''all''" "''all''" "''all''"]
    filteredIssues_conjunction [of light_issue sample_lower "[road_issue, light_issue]"
      "[]" "''reported''" "''all''" "''all''"]
    filteredIssues_conjunction [of cafe_issue sample_lower "[cafe_issue]"
      "''caf'' @ [CHR 0xC3, CHR 0xA9]" "''all''" "''all''" "''all''"]
  by (simp add: includes_str_sublist [symmetric] lower_char_def
      road_issue_def light_issue_def cafe_issue_def)

subsection \<open>Geolocation\<close>

text \<open>
  C10. \<open>getUserLocation\<close> is total at its interface: for every geolocation outcome
  (no geolocation in the browser, an error callback with any code, or a position) the
  returned promise is fulfilled, never rejected; whenever the result carries an error
  message its latitude and longitude are both 0; and on success they are the device
  coordinates, with the address \<open>getLocationName\<close> derives from them.
\<close>

theorem getUserLocation_total:
  "(\<exists>r. getUserLocation nav options = Fulfilled r)
   \<and> (\<forall>r. getUserLocation nav options = Fulfilled r \<and> lr_error r \<noteq> None \<longrightarrow>
         lr_lat r = 0 \<and> lr_lng r = 0)
   \<and> (geolocation nav = None \<longrightarrow>
        getUserLocation nav options =
          Fulfilled \<lparr>lr_address = ''Geolocation not supported'', lr_lat = 0, lr_lng = 0,
                     lr_error = Some ''Geolocation is not supported by this browser''\<rparr>)
   \<and> (\<forall>g code. geolocation nav = Some g \<and> g (defaultOptions options) = PositionError code \<longrightarrow>
        (\<exists>a m. getUserLocation nav options =
           Fulfilled \<lparr>lr_address = a, lr_lat = 0, lr_lng = 0, lr_error = Some m\<rparr>))
   \<and> (\<forall>g lat lng acc.
         geolocation nav = Some g \<and> g (defaultOptions options) = Position lat lng acc \<longrightarrow>
         getUserLocation nav options =
           Fulfilled \<lparr>lr_address = getLocationName lat lng, lr_lat = lat, lr_lng = lng,
                      lr_error = None\<rparr>)"
proof -
  have a: "\<exists>r. getUserLocation nav options = Fulfilled r"
    by (simp add: getUserLocation_def Let_def split: option.splits geo_response.splits prod.splits)
  have b: "\<forall>r. getUserLocation nav options = Fulfilled r \<and> lr_error r \<noteq> None \<longrightarrow>
         lr_lat r = 0 \<and> lr_lng r = 0"
    by (auto simp: getUserLocation_def Let_def split: option.splits geo_response.splits prod.splits)
  have c: "geolocation nav = None \<longrightarrow>
        getUserLocation nav options =
          Fulfilled \<lparr>lr_address = ''Geolocation not supported'', lr_lat = 0, lr_lng = 0,
                     lr_error = Some ''Geolocation is not supported by this browser''\<rparr>"
    by (simp add: getUserLocation_def)
  have d: "\<forall>g code. geolocation nav = Some g \<and> g (defaultOptions options) = PositionError code \<longrightarrow>
        (\<exists>a m. getUserLocation nav options =
           Fulfilled \<lparr>lr_address = a, lr_lat = 0, lr_lng = 0, lr_error = Some m\<rparr>)"
    by (simp add: getUserLocation_def Let_def split: prod.splits)
  have e: "\<forall>g lat lng acc.
         geolocation nav = Some g \<and> g (defaultOptions options) = Position lat lng acc \<longrightarrow>
         getUserLocation nav options =
           Fulfilled \<lparr>lr_address = getLocationName lat lng, lr_lat = lat, lr_lng = lng,
                      lr_error = None\<rparr>"
    by (simp add: getUserLocation_def)
  from a b c d e show ?thesis by blast
qed

theorem getUserLocation_total_witness:
  "getUserLocation nav_unsupported None =
     Fulfilled \<lparr>lr_address = ''Geolocation not supported'', lr_lat = 0, lr_lng = 0,
                lr_error = Some ''Geolocation is not supported by this browser''\<rparr>
   \<and> getUserLocation nav_at_ranchi None =
     Fulfilled \<lparr>lr_address = getLocationName 23.3441 85.3096, lr_lat = 23.3441,
                lr_lng = 85.3096, lr_error = None\<rparr>
   \<and> (\<exists>a m. getUserLocation nav_timeout None =
           Fulfilled \<lparr>lr_address = a, lr_lat = 0, lr_lng = 0, lr_error = Some m\<rparr>)"
  using getUserLocation_total [of nav_unsupported None] getUserLocation_total [of nav_at_ranchi None]
    getUserLocation_total [of nav_timeout None]
  by (simp add: nav_unsupported_def nav_at_ranchi_def nav_timeout_def)

subsection \<open>Issue submission\<close>

lemma form_backend_ok_simps:
  "isFirebaseAvailable form_backend_ok"
  "uploadBytes form_backend_ok = (\<lambda>r f. None)"
  "getDownloadURL form_backend_ok = (\<lambda>r. Inr ''https://img/1'')"
  "uploadSettlesBeforeTimeout form_backend_ok"
  "confirm form_backend_ok = (\<lambda>m. True)"
  "addDoc form_backend_ok = (\<lambda>d. Inr ''issue1'')"
  by (simp_all add: form_backend_ok_def backend.defs form_backend.defs backend_ok_def)

lemma uploadStep_timers:
  "filter is_timer (snd (snd (snd (uploadStep be s)))) =
     (if selectedImage s \<noteq> None \<and> isFirebaseAvailable be then [SetTimeout 15000] else [])"
  by (simp add: uploadStep_def uploadTimeoutMs_def split: option.splits sum.splits)

lemma uploadStep_AddIssue: "filter is_AddIssue (snd (snd (snd (uploadStep be s)))) = []"
  by (simp add: uploadStep_def split: option.splits sum.splits)

lemma uploadStep_AddDoc: "AddDoc doc \<notin> set (snd (snd (snd (uploadStep be s))))"
  by (simp add: uploadStep_def split: option.splits sum.splits)

lemma uploadStep_failed:
  "selectedImage s = Some img \<Longrightarrow> isFirebaseAvailable be \<Longrightarrow> isl (raceUpload be img) \<Longrightarrow>
   uploadStep be s =
     (None, True, s\<lparr>error := msg_upload_warning\<rparr>, [UploadImage img, SetTimeout 15000])"
  by (cases "raceUpload be img") (simp_all add: uploadStep_def uploadTimeoutMs_def)

lemma uploadStep_not_failed:
  "\<not> (\<exists>img. selectedImage s = Some img \<and> isFirebaseAvailable be \<and> isl (raceUpload be img)) \<Longrightarrow>
   \<not> fst (snd (uploadStep be s))"
  by (auto simp: uploadStep_def split: option.splits sum.splits)

lemma submitStep_timers: "filter is_timer (snd (submitStep be r s s1 u f)) = []"
  by (simp add: submitStep_def addIssue_def Let_def split: prod.splits sum.splits)

lemma submitStep_AddIssue:
  "filter is_AddIssue (snd (submitStep be r s s1 u f)) = [AddIssue (issueDataOf r s u)]"
  by (simp add: submitStep_def addIssue_def Let_def split: prod.splits sum.splits)

lemma submitStep_hd:
  "\<exists>rest. snd (submitStep be r s s1 u f) = AddIssue (issueDataOf r s u) # rest"
  by (simp add: submitStep_def addIssue_def Let_def split: prod.splits sum.splits)

lemma submitStep_AddDoc:
  "AddDoc doc \<in> set (snd (submitStep be r s s1 u f)) \<Longrightarrow> d_status doc = ''reported''"
  by (auto simp: submitStep_def addIssue_def Let_def issueDataOf_def IssueData.defs
      split: prod.splits sum.splits if_splits)

lemma handleSubmit_invalid:
  "title s = [] \<or> description s = [] \<or> category s = [] \<or> location s = [] \<Longrightarrow>
   handleSubmit be r s = (s\<lparr>error := ''Please fill in all required fields''\<rparr>, [])"
  by (simp add: handleSubmit_def msg_required_def)

lemma handleSubmit_valid:
  "title s \<noteq> [] \<Longrightarrow> description s \<noteq> [] \<Longrightarrow> category s \<noteq> [] \<Longrightarrow> location s \<noteq> [] \<Longrightarrow>
   handleSubmit be r s =
     (case uploadStep be (s\<lparr>loading := True, error := []\<rparr>) of
          (finalImageUrl, imageUploadFailed, s1, eff1) \<Rightarrow>
            if imageUploadFailed \<and> selectedImage s \<noteq> None then
              (if confirm be msg_confirm then
                 (case submitStep be r s s1 finalImageUrl imageUploadFailed of
                    (s2, eff2) \<Rightarrow> (s2, eff1 @ [Confirm msg_confirm] @ eff2))
               else
                 (s1\<lparr>loading := False, error := msg_cancelled\<rparr>, eff1 @ [Confirm msg_confirm]))
            else
              (case submitStep be r s s1 finalImageUrl imageUploadFailed of
                 (s2, eff2) \<Rightarrow> (s2, eff1 @ eff2)))"
  by (simp add: handleSubmit_def)

lemma handleSubmit_timers:
  "filter is_timer (snd (handleSubmit be r s)) =
   (if title s \<noteq> [] \<and> description s \<noteq> [] \<and> category s \<noteq> [] \<and> location s \<noteq> []
       \<and> selectedImage s \<noteq> None \<and> isFirebaseAvailable be then [SetTimeout 15000] else [])"
proof (cases "title s \<noteq> [] \<and> description s \<noteq> [] \<and> category s \<noteq> [] \<and> location s \<noteq> []")
  case False
  then show ?thesis by (auto simp: handleSubmit_def)
next
  case True
  have e1: "filter is_timer (snd (snd (snd (uploadStep be (s\<lparr>loading := True, error := []\<rparr>))))) =
     (if selectedImage s \<noteq> None \<and> isFirebaseAvailable be then [SetTimeout 15000] else [])"
    using uploadStep_timers [of be "s\<lparr>loading := True, error := []\<rparr>"] by simp
  show ?thesis
    using True e1 by (simp add: handleSubmit_valid split_def submitStep_timers)
qed

lemma handleSubmit_declined:
  assumes "title s \<noteq> []" "description s \<noteq> []" "category s \<noteq> []" "location s \<noteq> []"
    and "selectedImage s = Some img" "isFirebaseAvailable be" "isl (raceUpload be img)"
    and "\<not> confirm be msg_confirm"
  shows "handleSubmit be r s =
     (s\<lparr>loading := False, error := msg_cancelled\<rparr>,
      [UploadImage img, SetTimeout 15000, Confirm msg_confirm])"
proof -
  have "uploadStep be (s\<lparr>loading := True, error := []\<rparr>) =
     (None, True, s\<lparr>loading := True, error := []\<rparr>\<lparr>error := msg_upload_warning\<rparr>,
      [UploadImage img, SetTimeout 15000])"
    using assms by (intro uploadStep_failed) simp_all
  then show ?thesis
    using assms by (simp add: handleSubmit_valid)
qed

lemma handleSubmit_accepted:
  assumes "title s \<noteq> []" "description s \<noteq> []" "category s \<noteq> []" "location s \<noteq> []"
    and "selectedImage s = Some img" "isFirebaseAvailable be" "isl (raceUpload be img)"
    and "confirm be msg_confirm"
  shows "\<exists>rest. snd (handleSubmit be r s) =
      [UploadImage img, SetTimeout 15000, Confirm msg_confirm, AddIssue (issueDataOf r s None)]
      @ rest"
proof -
  have up: "uploadStep be (s\<lparr>loading := True, error := []\<rparr>) =
     (None, True, s\<lparr>loading := True, error := []\<rparr>\<lparr>error := msg_upload_warning\<rparr>,
      [UploadImage img, SetTimeout 15000])"
    using assms by (intro uploadStep_failed) simp_all
  obtain rest where
    "snd (submitStep be r s (s\<lparr>loading := True, error := []\<rparr>\<lparr>error := msg_upload_warning\<rparr>)
        None True) = AddIssue (issueDataOf r s None) # rest"
    using submitStep_hd by blast
  then show ?thesis
    using assms up by (simp add: handleSubmit_valid split_def)
qed

lemma handleSubmit_AddIssue:
  assumes "title s \<noteq> []" "description s \<noteq> []" "category s \<noteq> []" "location s \<noteq> []"
  shows "if uploadDeclined be s then filter is_AddIssue (snd (handleSubmit be r s)) = []
         else \<exists>u. filter is_AddIssue (snd (handleSubmit be r s)) = [AddIssue (issueDataOf r s u)]"
proof (cases "uploadDeclined be s")
  case True
  then obtain img where "selectedImage s = Some img" "isFirebaseAvailable be"
      "isl (raceUpload be img)" "\<not> confirm be msg_confirm"
    by (auto simp: uploadDeclined_def split: option.splits)
  then show ?thesis
    using assms True by (simp add: handleSubmit_declined)
next
  case False
  show ?thesis
  proof (cases "\<exists>img. selectedImage s = Some img \<and> isFirebaseAvailable be \<and> isl (raceUpload be img)")
    case True
    then obtain img where f: "selectedImage s = Some img" "isFirebaseAvailable be"
      "isl (raceUpload be img)" by blast
    with False have c: "confirm be msg_confirm"
      by (simp add: uploadDeclined_def)
    have up: "uploadStep be (s\<lparr>loading := True, error := []\<rparr>) =
       (None, True, s\<lparr>loading := True, error := []\<rparr>\<lparr>error := msg_upload_warning\<rparr>,
        [UploadImage img, SetTimeout 15000])"
      using f by (intro uploadStep_failed) simp_all
    show ?thesis
      using assms False c f up
      by (auto simp: handleSubmit_valid split_def submitStep_AddIssue)
  next
    case nf: False
    have "\<not> fst (snd (uploadStep be (s\<lparr>loading := True, error := []\<rparr>)))"
      using nf by (intro uploadStep_not_failed) simp
    then show ?thesis
      using assms False
      by (auto simp: handleSubmit_valid split_def submitStep_AddIssue uploadStep_AddIssue)
  qed
qed

lemma handleSubmit_status:
  assumes a: "AddIssue d \<in> set (snd (handleSubmit be r s))"
  shows "d_status d = ''reported''"
proof -
  have m: "AddIssue d \<in> set (filter is_AddIssue (snd (handleSubmit be r s)))"
    using a by simp
  have "filter is_AddIssue (snd (handleSubmit be r s)) = [] \<or>
     (\<exists>u. filter is_AddIssue (snd (handleSubmit be r s)) = [AddIssue (issueDataOf r s u)])"
  proof (cases "title s \<noteq> [] \<and> description s \<noteq> [] \<and> category s \<noteq> [] \<and> location s \<noteq> []")
    case True
    then show ?thesis using handleSubmit_AddIssue [of s be r] by (auto split: if_splits)
  next
    case False
    then show ?thesis by (auto simp: handleSubmit_def)
  qed
  then consider (none) "filter is_AddIssue (snd (handleSubmit be r s)) = []"
    | (one) u where
      "filter is_AddIssue (snd (handleSubmit be r s)) = [AddIssue (issueDataOf r s u)]"
    by blast
  then show ?thesis
  proof cases
    case none
    with m show ?thesis by (simp del: set_filter)
  next
    case one
    with m have "d = issueDataOf r s u" by (simp del: set_filter)
    then show ?thesis by (simp add: issueDataOf_def)
  qed
qed

lemma handleSubmit_AddDoc:
  assumes "AddDoc doc \<in> set (snd (handleSubmit be r s))"
  shows "d_status doc = ''reported''"
proof (cases "title s \<noteq> [] \<and> description s \<noteq> [] \<and> category s \<noteq> [] \<and> location s \<noteq> []")
  case False
  with assms show ?thesis by (auto simp: handleSubmit_def)
next
  case True
  with assms have "AddDoc doc \<in> set (snd (submitStep be r s
      (fst (snd (snd (uploadStep be (s\<lparr>loading := True, error := []\<rparr>)))))
      (fst (uploadStep be (s\<lparr>loading := True, error := []\<rparr>)))
      (fst (snd (uploadStep be (s\<lparr>loading := True, error := []\<rparr>))))))"
    by (auto simp: handleSubmit_def split_def uploadStep_AddDoc split: if_splits)
  then show ?thesis by (rule submitStep_AddDoc)
qed

text \<open>
  C3, as the specification states it, fails in its second half: with all four required
  fields filled in, an image selected, the upload refused and the dialog answered no, the
  handler stops after the dialog and \<open>addIssue\<close> is not invoked.
\<close>

theorem handleSubmit_valid_without_addIssue:
  "title filled_form \<noteq> [] \<and> description filled_form \<noteq> [] \<and> category filled_form \<noteq> []
   \<and> location filled_form \<noteq> []
   \<and> snd (handleSubmit form_backend_declined ''a@b.in'' filled_form) =
       [UploadImage photo, SetTimeout 15000, Confirm msg_confirm]"
  by (simp add: handleSubmit_def uploadStep_def raceUpload_def uploadImage_def uploadTimeoutMs_def
      form_backend_declined_def form_backend_ok_simps filled_form_def)

text \<open>
  C3, amended. Issue submission enforces required-field validation: for every form state
  in which title, description, category or location is empty, the submit handler sets the
  error message \<open>Please fill in all required fields\<close>, changes nothing else and has no
  effect at all (no upload, no \<open>addIssue\<close>, no document write); for every form state
  with all four non-empty it invokes \<open>addIssue\<close> exactly once, except when an image is
  selected, the backend is available, the raced upload fails and the user declines the
  confirmation, in which case \<open>addIssue\<close> is not invoked.
\<close>

theorem handleSubmit_required_fields:
  "(title s = [] \<or> description s = [] \<or> category s = [] \<or> location s = [] \<longrightarrow>
      handleSubmit be r s = (s\<lparr>error := ''Please fill in all required fields''\<rparr>, []))
   \<and> (title s \<noteq> [] \<and> description s \<noteq> [] \<and> category s \<noteq> [] \<and> location s \<noteq> [] \<longrightarrow>
      (if uploadDeclined be s then filter is_AddIssue (snd (handleSubmit be r s)) = []
       else \<exists>u. filter is_AddIssue (snd (handleSubmit be r s)) = [AddIssue (issueDataOf r s u)]))"
  using handleSubmit_invalid [of s be r] handleSubmit_AddIssue [of s be r] by blast

theorem handleSubmit_required_fields_witness:
  "handleSubmit form_backend_ok ''a@b.in'' (filled_form\<lparr>title := []\<rparr>) =
     (filled_form\<lparr>title := [], error := ''Please fill in all required fields''\<rparr>, [])
   \<and> (\<exists>u. filter is_AddIssue (snd (handleSubmit form_backend_ok ''a@b.in'' filled_form)) =
          [AddIssue (issueDataOf ''a@b.in'' filled_form u)])
   \<and> filter is_AddIssue (snd (handleSubmit form_backend_declined ''a@b.in'' filled_form)) = []"
  using handleSubmit_required_fields [of "filled_form\<lparr>title := []\<rparr>" form_backend_ok "''a@b.in''"]
    handleSubmit_required_fields [of filled_form form_backend_ok "''a@b.in''"]
    handleSubmit_required_fields [of filled_form form_backend_declined "''a@b.in''"]
  by (simp add: uploadDeclined_def raceUpload_def uploadImage_def filled_form_def
      form_backend_ok_simps form_backend_declined_def)

text \<open>
  C4. The image upload during submission is raced against a single 15000 ms timer: the
  handler starts exactly one timer, of 15000 ms, when it uploads (valid form, image
  selected, backend available) and none otherwise; the race yields the upload's own
  result when the upload settles first and the rejection \<open>Image upload timeout\<close>
  otherwise. If the raced upload fails and an image was selected, the confirmation dialog
  comes before \<open>addIssue\<close>; if the user declines, the handler ends there, without
  \<open>addIssue\<close>, with the form fields as they were and loading cleared.
\<close>

theorem handleSubmit_upload_race:
  "filter is_timer (snd (handleSubmit be r s)) =
     (if title s \<noteq> [] \<and> description s \<noteq> [] \<and> category s \<noteq> [] \<and> location s \<noteq> []
         \<and> selectedImage s \<noteq> None \<and> isFirebaseAvailable be
      then [SetTimeout 15000] else [])
   \<and> raceUpload be img =
       (if uploadSettlesBeforeTimeout be then uploadImage be img
        else Inl (Error ''Image upload timeout''))
   \<and> (title s \<noteq> [] \<and> description s \<noteq> [] \<and> category s \<noteq> [] \<and> location s \<noteq> []
       \<and> selectedImage s = Some img \<and> isFirebaseAvailable be \<and> isl (raceUpload be img) \<longrightarrow>
       (if confirm be msg_confirm
        then \<exists>rest. snd (handleSubmit be r s) =
               [UploadImage img, SetTimeout 15000, Confirm msg_confirm,
                AddIssue (issueDataOf r s None)] @ rest
        else handleSubmit be r s =
               (s\<lparr>loading := False, error := msg_cancelled\<rparr>,
                [UploadImage img, SetTimeout 15000, Confirm msg_confirm])))"
  using handleSubmit_timers [of be r s] handleSubmit_accepted [of s img be r]
    handleSubmit_declined [of s img be r]
  by (simp add: raceUpload_def)

theorem handleSubmit_upload_race_witness:
  "filter is_timer (snd (handleSubmit form_backend_ok ''a@b.in'' filled_form)) = [SetTimeout 15000]
   \<and> raceUpload form_backend_slow photo = Inl (Error ''Image upload timeout'')
   \<and> handleSubmit form_backend_declined ''a@b.in'' filled_form =
       (filled_form\<lparr>loading := False, error := msg_cancelled\<rparr>,
        [UploadImage photo, SetTimeout 15000, Confirm msg_confirm])
   \<and> (\<exists>rest. snd (handleSubmit form_backend_slow ''a@b.in'' filled_form) =
         [UploadImage photo, SetTimeout 15000, Confirm msg_confirm,
          AddIssue (issueDataOf ''a@b.in'' filled_form None)] @ rest)"
  using handleSubmit_upload_race [of form_backend_ok "''a@b.in''" filled_form photo]
    handleSubmit_upload_race [of form_backend_declined "''a@b.in''" filled_form photo]
    handleSubmit_upload_race [of form_backend_slow "''a@b.in''" filled_form photo]
  by (simp add: uploadImage_def filled_form_def form_backend_ok_simps form_backend_declined_def
      form_backend_slow_def)

subsection \<open>Issue status\<close>

lemma app_backend_ok_simps:
  "isFirebaseAvailable app_backend_ok"
  "uploadBytes app_backend_ok = (\<lambda>r f. None)"
  "getDownloadURL app_backend_ok = (\<lambda>r. Inr ''https://img/1'')"
  "uploadSettlesBeforeTimeout app_backend_ok"
  "confirm app_backend_ok = (\<lambda>m. True)"
  "addDoc app_backend_ok = (\<lambda>d. Inr ''issue1'')"
  "updateIssueDoc app_backend_ok = (\<lambda>i u. None)"
  by (simp_all add: app_backend_ok_def form_backend_ok_def backend.defs form_backend.defs
      app_backend.defs backend_ok_def)

lemma valid_status_iff:
  "valid_status st \<longleftrightarrow>
     st = ''reported'' \<or> st = ''acknowledged'' \<or> st = ''in-progress'' \<or> st = ''resolved''"
  by (auto simp: valid_status_def IssueStatus_values_def)

lemma created_iff: "CreateIssue doc \<in> set (created effs) \<longleftrightarrow> AddDoc doc \<in> set effs"
  by (induction effs rule: created.induct) auto

lemma created_no_update: "UpdateIssue i u \<notin> set (created effs)"
  by (induction effs rule: created.induct) auto

lemma updated_iff: "UpdateIssue i u \<in> set (updated reqs) \<longleftrightarrow> (i, u) \<in> set reqs"
  by (auto simp: updated_def)

lemma updated_no_create: "CreateIssue doc \<notin> set (updated reqs)"
  by (auto simp: updated_def)

lemma updateThenNotify_ok:
  "updateIssue be issueId u = None \<Longrightarrow>
   updateThenNotify be issues issueId u = (handleUpdateIssue issues issueId u, [(issueId, u)])"
  by (simp add: updateThenNotify_def)

lemma updateThenNotify_failed:
  "updateIssue be issueId u \<noteq> None \<Longrightarrow> fst (updateThenNotify be issues issueId u) = issues"
  by (auto simp: updateThenNotify_def split: option.splits)

lemma updateThenNotify_sent:
  "x \<in> set (snd (updateThenNotify be issues issueId u)) \<Longrightarrow> x = (issueId, u)"
  by (auto simp: updateThenNotify_def split: option.splits if_splits)

lemma updateThenNotify_cases:
  "fst (updateThenNotify be issues issueId u) = issues
   \<or> fst (updateThenNotify be issues issueId u) = handleUpdateIssue issues issueId u"
  by (auto simp: updateThenNotify_def split: option.splits)

lemma handleUpdateIssue_valid:
  assumes "\<forall>i \<in> set issues. valid_status (is_status i)"
    and "\<forall>x. iu_status u = Some x \<longrightarrow> valid_status x"
  shows "\<forall>i \<in> set (handleUpdateIssue issues issueId u). valid_status (is_status i)"
  using assms by (auto simp: handleUpdateIssue_def spreadIssue_def split: option.splits)

lemma handleEditSave_sent:
  "(i, u) \<in> set (fst (snd (handleEditSave be issue st))) \<Longrightarrow> iu_status u = None"
  by (auto simp: handleEditSave_def Let_def no_updates_def split: if_splits option.splits)

lemma handleSaveEdit_sent:
  "(i, u) \<in> set (snd (handleSaveEdit be issueId st)) \<Longrightarrow>
   iu_status u = Some (se_status (sm_editData st))"
  by (auto simp: handleSaveEdit_def Let_def no_updates_def split: if_splits option.splits)

lemma snapshotsValid_Cons:
  "snapshotsValid (ev # evs) \<longleftrightarrow> snapshotsValid [ev] \<and> snapshotsValid evs"
  by (cases ev) simp_all

lemma settingsStep_sent:
  assumes "settingsInv st" "eventOffered st ev"
    and "(i, u) \<in> set (snd (settingsStep be st ev))" "iu_status u = Some x"
  shows "valid_status x"
proof (cases ev)
  case (SaveEdit issueId)
  with assms(2) have "sm_editingIssue st \<noteq> None"
    by (auto split: option.splits)
  with assms(1) have "valid_status (se_status (sm_editData st))"
    by (simp add: settingsInv_def)
  moreover have "iu_status u = Some (se_status (sm_editData st))"
    using assms(3) SaveEdit handleSaveEdit_sent by fastforce
  ultimately show ?thesis using assms(4) by simp
qed (use assms(3) in simp_all)

lemma handleSaveEdit_inv:
  assumes "settingsInv st" "sm_editingIssue st \<noteq> None"
  shows "settingsInv (fst (handleSaveEdit be issueId st))"
proof -
  from assms have v: "valid_status (se_status (sm_editData st))"
    by (simp add: settingsInv_def)
  show ?thesis
    using assms(1) v
    by (auto simp: handleSaveEdit_def Let_def settingsInv_def spreadIssue_def no_updates_def
        split: option.splits if_splits)
qed

lemma settingsStep_inv:
  assumes "settingsInv st" "eventOffered st ev" "snapshotsValid [ev]"
  shows "settingsInv (fst (settingsStep be st ev))"
proof (cases ev)
  case (Snapshot issues)
  with assms show ?thesis by (auto simp: settingsInv_def split: option.splits)
next
  case (CitizenDataSet d)
  with assms show ?thesis by (auto simp: settingsInv_def split: option.splits)
next
  case (EditIssue issue)
  with assms show ?thesis
    by (auto simp: settingsInv_def handleEditIssue_def split: option.splits)
next
  case (SetTitle v)
  with assms show ?thesis by (auto simp: settingsInv_def split: option.splits)
next
  case (SetCategory v)
  with assms show ?thesis by (auto simp: settingsInv_def split: option.splits)
next
  case (SetDescription v)
  with assms show ?thesis by (auto simp: settingsInv_def split: option.splits)
next
  case (SetStatus v)
  with assms show ?thesis
    by (auto simp: settingsInv_def settingsStatusOptions_def valid_status_def
        IssueStatus_values_def split: option.splits)
next
  case CancelEdit
  with assms show ?thesis
    by (auto simp: settingsInv_def handleCancelEdit_def split: option.splits)
next
  case (SaveEdit issueId)
  with assms(2) have "sm_editingIssue st \<noteq> None"
    by (auto split: option.splits)
  with assms(1) SaveEdit show ?thesis
    by (simp add: handleSaveEdit_inv)
qed

lemma settingsRun_inv:
  "settingsInv st \<Longrightarrow> settingsOffered be st evs \<Longrightarrow> snapshotsValid evs \<Longrightarrow>
   settingsInv (fst (settingsRun be st evs))"
proof (induction evs arbitrary: st)
  case Nil
  then show ?case by simp
next
  case (Cons ev evs)
  from Cons.prems have sv: "snapshotsValid [ev]" "snapshotsValid evs"
    using snapshotsValid_Cons by blast+
  from Cons.prems have off: "eventOffered st ev"
    "settingsOffered be (fst (settingsStep be st ev)) evs" by simp_all
  have "settingsInv (fst (settingsStep be st ev))"
    using Cons.prems(1) off(1) sv(1) by (rule settingsStep_inv)
  then show ?case
    using Cons.IH off(2) sv(2) by simp
qed

lemma settingsRun_sent:
  "settingsInv st \<Longrightarrow> settingsOffered be st evs \<Longrightarrow> snapshotsValid evs \<Longrightarrow>
   (i, u) \<in> set (snd (settingsRun be st evs)) \<Longrightarrow> iu_status u = Some x \<Longrightarrow> valid_status x"
proof (induction evs arbitrary: st)
  case Nil
  then show ?case by simp
next
  case (Cons ev evs)
  from Cons.prems have sv: "snapshotsValid [ev]" "snapshotsValid evs"
    using snapshotsValid_Cons by blast+
  from Cons.prems have off: "eventOffered st ev"
    "settingsOffered be (fst (settingsStep be st ev)) evs" by simp_all
  have inv: "settingsInv (fst (settingsStep be st ev))"
    using Cons.prems(1) off(1) sv(1) by (rule settingsStep_inv)
  from Cons.prems(4) consider
    (now) "(i, u) \<in> set (snd (settingsStep be st ev))"
    | (later) "(i, u) \<in> set (snd (settingsRun be (fst (settingsStep be st ev)) evs))"
    by auto
  then show ?case
  proof cases
    case now
    then show ?thesis
      using Cons.prems(1,5) off(1) settingsStep_sent by blast
  next
    case later
    then show ?thesis
      using Cons.IH inv off(2) sv(2) Cons.prems(5) by blast
  qed
qed

lemma settingsInitial_inv: "settingsInv settingsInitial"
  by (simp add: settingsInv_def settingsInitial_def)

lemma handleAssignVendor_ok:
  "updateIssue be issueId
     (no_updates\<lparr>iu_assignedTo := Some (vendorNameOf vendors vendorId),
                  iu_status := Some ''in-progress''\<rparr>) = None \<Longrightarrow>
   fst (handleAssignVendor be vendors issues issueId vendorId) =
     map (\<lambda>i. if is_id i = issueId
              then i\<lparr>is_status := ''in-progress'',
                     is_assignedTo := Some (vendorNameOf vendors vendorId)\<rparr>
              else i) issues"
  by (simp add: handleAssignVendor_def updateThenNotify_ok handleUpdateIssue_def spreadIssue_def
      no_updates_def)

lemma handleStatusUpdate_ok:
  "updateIssue be issueId (no_updates\<lparr>iu_status := Some newStatus\<rparr>) = None \<Longrightarrow>
   fst (handleStatusUpdate be issues issueId newStatus) =
     map (\<lambda>i. if is_id i = issueId then i\<lparr>is_status := newStatus\<rparr> else i) issues"
  by (simp add: handleStatusUpdate_def updateThenNotify_ok handleUpdateIssue_def spreadIssue_def
      no_updates_def)

lemma handleAssignmentUpdate_status:
  "map is_status (fst (handleAssignmentUpdate be issues issueId assignee)) = map is_status issues"
  by (cases "updateIssue be issueId (no_updates\<lparr>iu_assignedTo := Some assignee\<rparr>)")
     (simp_all add: handleAssignmentUpdate_def updateThenNotify_def handleUpdateIssue_def
        spreadIssue_def no_updates_def)

lemma dashboard_lists_valid:
  assumes "\<forall>i \<in> set issues. valid_status (is_status i)"
    and "newStatus \<in> set dashboardStatusOptions"
  shows "(\<forall>i \<in> set (fst (handleStatusUpdate be issues issueId newStatus)).
            valid_status (is_status i))
         \<and> (\<forall>i \<in> set (fst (handleAssignVendor be vendors issues issueId vendorId)).
            valid_status (is_status i))"
proof -
  have n: "valid_status newStatus"
    using assms(2) by (simp add: dashboardStatusOptions_def valid_status_def IssueStatus_values_def)
  have p: "valid_status ''in-progress''"
    by (simp add: valid_status_iff)
  have a: "\<forall>i \<in> set (handleUpdateIssue issues issueId (no_updates\<lparr>iu_status := Some newStatus\<rparr>)).
      valid_status (is_status i)"
    using assms(1) n by (intro handleUpdateIssue_valid) simp_all
  have b: "\<forall>i \<in> set (handleUpdateIssue issues issueId
        (no_updates\<lparr>iu_assignedTo := Some (vendorNameOf vendors vendorId),
                     iu_status := Some ''in-progress''\<rparr>)).
      valid_status (is_status i)"
    using assms(1) p by (intro handleUpdateIssue_valid) simp_all
  show ?thesis
    using a b assms(1)
      updateThenNotify_cases [of be issues issueId "no_updates\<lparr>iu_status := Some newStatus\<rparr>"]
      updateThenNotify_cases [of be issues issueId
        "no_updates\<lparr>iu_assignedTo := Some (vendorNameOf vendors vendorId),
                     iu_status := Some ''in-progress''\<rparr>"]
    unfolding handleStatusUpdate_def handleAssignVendor_def by metis
qed

lemma create_only_on_submit:
  assumes "CreateIssue doc \<in> set (issueWrites be user vendors issues a)"
  shows "d_status doc = ''reported'' \<and> (\<exists>s. a = Submit s)"
proof (cases a)
  case (Submit s)
  with assms have "AddDoc doc \<in> set (snd (handleSubmit be (up_email user) s))"
    by (simp add: created_iff)
  then show ?thesis using Submit handleSubmit_AddDoc by blast
qed (use assms in \<open>simp_all add: updated_no_create\<close>)

lemma status_update_sources:
  assumes "UpdateIssue i u \<in> set (issueWrites be user vendors issues a)" "iu_status u \<noteq> None"
  shows "(\<exists>issueId newStatus. a = StatusUpdate issueId newStatus)
         \<or> (\<exists>issueId vendorId. a = AssignVendor issueId vendorId)
         \<or> (\<exists>evs. a = Settings evs)"
proof (cases a)
  case (Submit s)
  with assms show ?thesis by (simp add: created_no_update)
next
  case (EditSave issue st)
  with assms show ?thesis
    using handleEditSave_sent by (fastforce simp: updated_iff)
next
  case (AssignmentUpdate issueId assignee)
  with assms have "(i, u) = (issueId, no_updates\<lparr>iu_assignedTo := Some assignee\<rparr>)"
    by (auto simp: updated_iff handleAssignmentUpdate_def dest: updateThenNotify_sent)
  with assms(2) show ?thesis by (simp add: no_updates_def)
qed simp_all

lemma status_update_admin:
  assumes "offered be user a"
    and "UpdateIssue i u \<in> set (issueWrites be user vendors issues a)" "iu_status u \<noteq> None"
  shows "up_role user = Admin \<or> up_uid user = ''admin''"
proof -
  have "mainView user = AdminView"
    using status_update_sources [OF assms(2,3)] assms(1) by auto
  then show ?thesis
    by (auto simp: mainView_def split: if_splits)
qed

lemma status_update_valid:
  assumes "offered be user a" "deliveriesValid a"
    and "UpdateIssue i u \<in> set (issueWrites be user vendors issues a)" "iu_status u = Some x"
  shows "valid_status x"
proof (cases a)
  case (Submit s)
  with assms show ?thesis by (simp add: created_no_update)
next
  case (EditSave issue st)
  with assms show ?thesis
    using handleEditSave_sent by (fastforce simp: updated_iff)
next
  case (StatusUpdate issueId newStatus)
  with assms have "(i, u) = (issueId, no_updates\<lparr>iu_status := Some newStatus\<rparr>)"
    by (auto simp: updated_iff handleStatusUpdate_def dest: updateThenNotify_sent)
  with assms(4) have "x = newStatus" by simp
  moreover have "newStatus \<in> set dashboardStatusOptions"
    using assms(1) StatusUpdate by simp
  ultimately show ?thesis
    by (simp add: dashboardStatusOptions_def valid_status_def IssueStatus_values_def)
next
  case (AssignmentUpdate issueId assignee)
  with assms have "(i, u) = (issueId, no_updates\<lparr>iu_assignedTo := Some assignee\<rparr>)"
    by (auto simp: updated_iff handleAssignmentUpdate_def dest: updateThenNotify_sent)
  with assms(4) show ?thesis by (simp add: no_updates_def)
next
  case (AssignVendor issueId vendorId)
  with assms have "(i, u) = (issueId,
      no_updates\<lparr>iu_assignedTo := Some (vendorNameOf vendors vendorId),
                   iu_status := Some ''in-progress''\<rparr>)"
    by (auto simp: updated_iff handleAssignVendor_def dest: updateThenNotify_sent)
  with assms(4) show ?thesis by (auto simp: valid_status_iff)
next
  case (Settings evs)
  with assms have "settingsOffered be settingsInitial evs" "snapshotsValid evs"
    "(i, u) \<in> set (snd (settingsRun be settingsInitial evs))"
    by (simp_all add: updated_iff)
  then show ?thesis
    using settingsInitial_inv assms(4) settingsRun_sent by blast
qed

lemma assign_vendor_write:
  assumes "w \<in> set (issueWrites be user vendors issues (AssignVendor issueId vendorId))"
  shows "w = UpdateIssue issueId
           (no_updates\<lparr>iu_assignedTo := Some (vendorNameOf vendors vendorId),
                        iu_status := Some ''in-progress''\<rparr>)"
  using assms by (auto simp: updated_def handleAssignVendor_def dest: updateThenNotify_sent)

text \<open>
  C6. Every issue's status is one of the four values reported, acknowledged, in-progress
  and resolved, and the handlers keep it so:
  \<^item> the citizen submission form is the only handler that creates a document, and every
    document it creates (and every issue it passes to \<open>addIssue\<close>) has status
    reported;
  \<^item> an update that carries a status comes only from a dashboard status update, a
    vendor assignment or the settings dialog's save, and these are offered only to a
    user whose role is admin or whose uid is \<open>admin\<close>; the citizen's edit and the
    assignee-only update carry none;
  \<^item> every status such an update carries is one of the four values, provided the issues
    the subscription delivers to the settings dialog have valid statuses;
  \<^item> a vendor assignment asks for exactly one thing, the assignee set to the vendor's
    name and the status set to in-progress, and on success does the same to the issue
    with that id in the dashboard's list; a status update sets the chosen status there;
    both leave the list as it was when the backend update fails, and an assignee-only
    update changes no status;
  \<^item> the dashboard's list and the settings dialog's state keep valid statuses.
\<close>

theorem issue_status_lifecycle:
  "(valid_status x \<longleftrightarrow>
      x = ''reported'' \<or> x = ''acknowledged'' \<or> x = ''in-progress'' \<or> x = ''resolved'')
   \<and> (\<forall>doc. CreateIssue doc \<in> set (issueWrites be user vendors issues a) \<longrightarrow>
         d_status doc = ''reported'' \<and> (\<exists>s. a = Submit s))
   \<and> (\<forall>d. AddIssue d \<in> set (snd (handleSubmit be r s)) \<longrightarrow> d_status d = ''reported'')
   \<and> (\<forall>i u. UpdateIssue i u \<in> set (issueWrites be user vendors issues a) \<and> iu_status u \<noteq> None \<longrightarrow>
         (\<exists>issueId newStatus. a = StatusUpdate issueId newStatus)
         \<or> (\<exists>issueId vendorId. a = AssignVendor issueId vendorId)
         \<or> (\<exists>evs. a = Settings evs))
   \<and> (\<forall>i u. offered be user a \<and> UpdateIssue i u \<in> set (issueWrites be user vendors issues a)
         \<and> iu_status u \<noteq> None \<longrightarrow>
         up_role user = Admin \<or> up_uid user = ''admin'')
   \<and> (\<forall>i u y. offered be user a \<and> deliveriesValid a
         \<and> UpdateIssue i u \<in> set (issueWrites be user vendors issues a) \<and> iu_status u = Some y \<longrightarrow>
         valid_status y)
   \<and> (\<forall>w \<in> set (issueWrites be user vendors issues (AssignVendor issueId vendorId)).
         w = UpdateIssue issueId
               (no_updates\<lparr>iu_assignedTo := Some (vendorNameOf vendors vendorId),
                            iu_status := Some ''in-progress''\<rparr>))
   \<and> (updateIssue be issueId
         (no_updates\<lparr>iu_assignedTo := Some (vendorNameOf vendors vendorId),
                      iu_status := Some ''in-progress''\<rparr>) = None \<longrightarrow>
       fst (handleAssignVendor be vendors issues issueId vendorId) =
         map (\<lambda>i. if is_id i = issueId
                  then i\<lparr>is_status := ''in-progress'',
                         is_assignedTo := Some (vendorNameOf vendors vendorId)\<rparr>
                  else i) issues)
   \<and> (updateIssue be issueId
         (no_updates\<lparr>iu_assignedTo := Some (vendorNameOf vendors vendorId),
                      iu_status := Some ''in-progress''\<rparr>) \<noteq> None \<longrightarrow>
       fst (handleAssignVendor be vendors issues issueId vendorId) = issues)
   \<and> (updateIssue be issueId (no_updates\<lparr>iu_status := Some newStatus\<rparr>) = None \<longrightarrow>
       fst (handleStatusUpdate be issues issueId newStatus) =
         map (\<lambda>i. if is_id i = issueId then i\<lparr>is_status := newStatus\<rparr> else i) issues)
   \<and> (updateIssue be issueId (no_updates\<lparr>iu_status := Some newStatus\<rparr>) \<noteq> None \<longrightarrow>
       fst (handleStatusUpdate be issues issueId newStatus) = issues)
   \<and> map is_status (fst (handleAssignmentUpdate be issues issueId assignee)) = map is_status issues
   \<and> ((\<forall>i \<in> set issues. valid_status (is_status i)) \<and> newStatus \<in> set dashboardStatusOptions \<longrightarrow>
       (\<forall>i \<in> set (fst (handleStatusUpdate be issues issueId newStatus)).
           valid_status (is_status i))
       \<and> (\<forall>i \<in> set (fst (handleAssignVendor be vendors issues issueId vendorId)).
           valid_status (is_status i)))
   \<and> (settingsOffered be settingsInitial evs \<and> snapshotsValid evs \<longrightarrow>
       settingsInv (fst (settingsRun be settingsInitial evs)))"
proof -
  have c: "updateIssue be issueId
         (no_updates\<lparr>iu_assignedTo := Some (vendorNameOf vendors vendorId),
                      iu_status := Some ''in-progress''\<rparr>) \<noteq> None \<longrightarrow>
       fst (handleAssignVendor be vendors issues issueId vendorId) = issues"
    by (simp add: handleAssignVendor_def updateThenNotify_failed)
  have d: "updateIssue be issueId (no_updates\<lparr>iu_status := Some newStatus\<rparr>) \<noteq> None \<longrightarrow>
       fst (handleStatusUpdate be issues issueId newStatus) = issues"
    by (simp add: handleStatusUpdate_def updateThenNotify_failed)
  have e: "\<forall>d. AddIssue d \<in> set (snd (handleSubmit be r s)) \<longrightarrow> d_status d = ''reported''"
    using handleSubmit_status by blast
  have f: "settingsOffered be settingsInitial evs \<and> snapshotsValid evs \<longrightarrow>
       settingsInv (fst (settingsRun be settingsInitial evs))"
    using settingsInitial_inv settingsRun_inv by blast
  have g: "\<forall>w \<in> set (issueWrites be user vendors issues (AssignVendor issueId vendorId)).
         w = UpdateIssue issueId
               (no_updates\<lparr>iu_assignedTo := Some (vendorNameOf vendors vendorId),
                            iu_status := Some ''in-progress''\<rparr>)"
    using assign_vendor_write by blast
  have h: "(\<forall>i \<in> set issues. valid_status (is_status i)) \<and> newStatus \<in> set dashboardStatusOptions \<longrightarrow>
       (\<forall>i \<in> set (fst (handleStatusUpdate be issues issueId newStatus)).
           valid_status (is_status i))
       \<and> (\<forall>i \<in> set (fst (handleAssignVendor be vendors issues issueId vendorId)).
           valid_status (is_status i))"
    using dashboard_lists_valid by blast
  have k: "\<forall>doc. CreateIssue doc \<in> set (issueWrites be user vendors issues a) \<longrightarrow>
         d_status doc = ''reported'' \<and> (\<exists>s. a = Submit s)"
    using create_only_on_submit by blast
  have l: "\<forall>i u. UpdateIssue i u \<in> set (issueWrites be user vendors issues a) \<and> iu_status u \<noteq> None \<longrightarrow>
         (\<exists>issueId newStatus. a = StatusUpdate issueId newStatus)
         \<or> (\<exists>issueId vendorId. a = AssignVendor issueId vendorId)
         \<or> (\<exists>evs. a = Settings evs)"
    using status_update_sources by blast
  have m: "\<forall>i u. offered be user a \<and> UpdateIssue i u \<in> set (issueWrites be user vendors issues a)
         \<and> iu_status u \<noteq> None \<longrightarrow>
         up_role user = Admin \<or> up_uid user = ''admin''"
    using status_update_admin by blast
  have n: "\<forall>i u y. offered be user a \<and> deliveriesValid a
         \<and> UpdateIssue i u \<in> set (issueWrites be user vendors issues a) \<and> iu_status u = Some y \<longrightarrow>
         valid_status y"
    using status_update_valid by blast
  have p: "updateIssue be issueId
         (no_updates\<lparr>iu_assignedTo := Some (vendorNameOf vendors vendorId),
                      iu_status := Some ''in-progress''\<rparr>) = None \<longrightarrow>
       fst (handleAssignVendor be vendors issues issueId vendorId) =
         map (\<lambda>i. if is_id i = issueId
                  then i\<lparr>is_status := ''in-progress'',
                         is_assignedTo := Some (vendorNameOf vendors vendorId)\<rparr>
                  else i) issues"
    using handleAssignVendor_ok [of be issueId vendors vendorId issues] by blast
  have q: "updateIssue be issueId (no_updates\<lparr>iu_status := Some newStatus\<rparr>) = None \<longrightarrow>
       fst (handleStatusUpdate be issues issueId newStatus) =
         map (\<lambda>i. if is_id i = issueId then i\<lparr>is_status := newStatus\<rparr> else i) issues"
    using handleStatusUpdate_ok [of be issueId newStatus issues] by blast
  show ?thesis
    using c d e f g h k l m n p q valid_status_iff [of x]
      handleAssignmentUpdate_status [of be issues issueId assignee]
    by (intro conjI) assumption+
qed

theorem issue_status_lifecycle_witness:
  "valid_status ''resolved''
   \<and> (\<exists>doc. issueWrites app_backend_ok citizen_user [] [] (Submit filled_form) = [CreateIssue doc]
          \<and> d_status doc = ''reported'')
   \<and> offered app_backend_ok citizen_user (EditSave road_issue editing_road_issue)
   \<and> issueWrites app_backend_ok citizen_user [] [road_issue] (EditSave road_issue editing_road_issue) =
       [UpdateIssue ''i1''
          (no_updates\<lparr>iu_title := Some ''Pothole on Main Road'',
                       iu_description := Some ''Deep pothole'',
                       iu_category := Some ''Road/Sidewalk'',
                       iu_location := Some (is_location road_issue)\<rparr>)]
   \<and> offered app_backend_ok (adminProfile 0) (Settings resolve_road_issue)
   \<and> issueWrites app_backend_ok (adminProfile 0) [] [road_issue, light_issue]
         (Settings resolve_road_issue) =
       [UpdateIssue ''i1''
          (no_updates\<lparr>iu_title := Some ''Pothole on Main Road'',
                       iu_description := Some ''Deep pothole'',
                       iu_category := Some ''Road/Sidewalk'',
                       iu_status := Some ''resolved''\<rparr>)]
   \<and> issueWrites app_backend_ok (adminProfile 0) [electrician] [road_issue, light_issue]
         (AssignVendor ''i1'' ''v2'') =
       [UpdateIssue ''i1''
          (no_updates\<lparr>iu_assignedTo := Some ''Bijli Works'', iu_status := Some ''in-progress''\<rparr>)]
   \<and> fst (handleAssignVendor app_backend_ok [electrician] [road_issue, light_issue] ''i1'' ''v2'') =
       [road_issue\<lparr>is_status := ''in-progress'', is_assignedTo := Some ''Bijli Works''\<rparr>, light_issue]
   \<and> fst (handleStatusUpdate app_backend_ok [road_issue, light_issue] ''i2'' ''resolved'') =
       [road_issue, light_issue\<lparr>is_status := ''resolved''\<rparr>]"
proof -
  let ?U = "no_updates\<lparr>iu_title := Some ''Pothole on Main Road'',
                       iu_description := Some ''Deep pothole'',
                       iu_category := Some ''Road/Sidewalk'',
                       iu_status := Some ''resolved''\<rparr>"
  have ids: "is_id road_issue = ''i1''" "is_id light_issue = ''i2''"
    by (simp_all add: road_issue_def light_issue_def)
  have n: "vendorNameOf [electrician] ''v2'' = ''Bijli Works''"
    by (simp add: vendorNameOf_def electrician_def generalist_def)
  have sub: "\<exists>doc. issueWrites app_backend_ok citizen_user [] [] (Submit filled_form) = [CreateIssue doc]"
    by (simp add: handleSubmit_def uploadStep_def submitStep_def addIssue_def raceUpload_def
        uploadImage_def Let_def filled_form_def app_backend_ok_simps)
  have off1: "offered app_backend_ok citizen_user (EditSave road_issue editing_road_issue)"
    by (simp add: canEdit_def mainView_def citizen_user_def road_issue_def editing_road_issue_def
        handleEditStart_def)
  have es: "issueWrites app_backend_ok citizen_user [] [road_issue]
        (EditSave road_issue editing_road_issue) =
       [UpdateIssue ''i1''
          (no_updates\<lparr>iu_title := Some ''Pothole on Main Road'',
                       iu_description := Some ''Deep pothole'',
                       iu_category := Some ''Road/Sidewalk'',
                       iu_location := Some (is_location road_issue)\<rparr>)]"
    by (simp add: handleEditSave_def Let_def updated_def updateIssue_def app_backend_ok_simps
        editing_road_issue_def handleEditStart_def road_issue_def)
  have off2: "offered app_backend_ok (adminProfile 0) (Settings resolve_road_issue)"
    by (simp add: mainView_def adminProfile_def resolve_road_issue_def settingsInitial_def
        handleEditIssue_def editFormShown_def settingsStatusOptions_def ids)
  have dv: "deliveriesValid (Settings resolve_road_issue)"
    by (simp add: resolve_road_issue_def valid_status_def IssueStatus_values_def
        road_issue_def light_issue_def)
  have st: "issueWrites app_backend_ok (adminProfile 0) [] [road_issue, light_issue]
         (Settings resolve_road_issue) = [UpdateIssue ''i1'' ?U]"
    by (simp add: resolve_road_issue_def settingsInitial_def handleEditIssue_def
        handleSaveEdit_def Let_def updated_def updateIssue_def app_backend_ok_simps road_issue_def)
  have av: "issueWrites app_backend_ok (adminProfile 0) [electrician] [road_issue, light_issue]
         (AssignVendor ''i1'' ''v2'') =
       [UpdateIssue ''i1''
          (no_updates\<lparr>iu_assignedTo := Some ''Bijli Works'', iu_status := Some ''in-progress''\<rparr>)]"
    by (simp add: handleAssignVendor_def updateThenNotify_def updated_def updateIssue_def
        app_backend_ok_simps n)
  have su: "iu_status ?U = Some ''resolved''"
    by (simp add: no_updates_def)
  note T1 = issue_status_lifecycle [where be = app_backend_ok and user = "adminProfile 0"
      and vendors = "[]" and issues = "[road_issue, light_issue]"
      and a = "Settings resolve_road_issue" and issueId = "''i2''" and newStatus = "''resolved''"
      and vendorId = "''v2''" and r = "''a@b.in''" and s = filled_form and x = "''resolved''"
      and assignee = "''x''" and evs = resolve_road_issue]
  note T2 = issue_status_lifecycle [where be = app_backend_ok and user = citizen_user
      and vendors = "[electrician]" and issues = "[road_issue, light_issue]"
      and a = "Submit filled_form" and issueId = "''i1''" and newStatus = "''resolved''"
      and vendorId = "''v2''" and r = "''a@b.in''" and s = filled_form and x = "''resolved''"
      and assignee = "''x''" and evs = resolve_road_issue]
  note T1_valid = T1 [THEN conjunct2, THEN conjunct2, THEN conjunct2, THEN conjunct2,
      THEN conjunct2, THEN conjunct1, rule_format, of "''i1''" ?U "''resolved''"]
  note T1_status = T1 [THEN conjunct2, THEN conjunct2, THEN conjunct2, THEN conjunct2,
      THEN conjunct2, THEN conjunct2, THEN conjunct2, THEN conjunct2, THEN conjunct2,
      THEN conjunct1]
  note T2_create = T2 [THEN conjunct2, THEN conjunct1, rule_format]
  note T2_assign = T2 [THEN conjunct2, THEN conjunct2, THEN conjunct2, THEN conjunct2,
      THEN conjunct2, THEN conjunct2, THEN conjunct2, THEN conjunct1]
  have v: "valid_status ''resolved''"
    using T1_valid off2 dv st su by simp
  have doc: "\<exists>doc. issueWrites app_backend_ok citizen_user [] [] (Submit filled_form) = [CreateIssue doc]
          \<and> d_status doc = ''reported''"
  proof -
    from sub obtain doc where
      d: "issueWrites app_backend_ok citizen_user [] [] (Submit filled_form) = [CreateIssue doc]"
      by blast
    then have "CreateIssue doc
        \<in> set (issueWrites app_backend_ok citizen_user [electrician] [road_issue, light_issue]
                 (Submit filled_form))"
      by simp
    with T2_create have "d_status doc = ''reported''" by blast
    with d show ?thesis by blast
  qed
  have l1: "fst (handleAssignVendor app_backend_ok [electrician] [road_issue, light_issue] ''i1'' ''v2'') =
       [road_issue\<lparr>is_status := ''in-progress'', is_assignedTo := Some ''Bijli Works''\<rparr>, light_issue]"
    using T2_assign n ids by (simp add: updateIssue_def app_backend_ok_simps)
  have l2: "fst (handleStatusUpdate app_backend_ok [road_issue, light_issue] ''i2'' ''resolved'') =
       [road_issue, light_issue\<lparr>is_status := ''resolved''\<rparr>]"
    using T1_status ids by (simp add: updateIssue_def app_backend_ok_simps)
  from v doc off1 es off2 st av l1 l2 show ?thesis
    by (intro conjI) assumption+
qed

end
